theory Spec2Isabelle
  imports Complex_Main "HOL-Library.Word"
begin

section \<open>Go values used by the Warp2 charger adapter\<close>

text \<open>
  The adapter is \<^verbatim>\<open>charger/warp2.go\<close>. Go's \<^verbatim>\<open>int64\<close> is a 64-bit word read
  as two's complement (\<open>sint\<close>, \<open><s\<close>, \<open>\<le>s\<close>); Go's platform-sized \<^verbatim>\<open>int\<close> is only
  ever compared with constants by the adapter and is modelled as \<open>int\<close>.
\<close>

type_synonym int64 = "64 word"

text \<open>
  Errors are values. \<open>External\<close> is an error produced by a collaborator of the
  adapter (bus client, provider, \<^verbatim>\<open>encoding/json\<close>, configuration decoding), carrying
  its message; the other three are the errors the adapter itself creates:
  \<^verbatim>\<open>fmt.Errorf("invalid status: %d", code)\<close>, \<^verbatim>\<open>errors.New("invalid length")\<close> and
  \<^verbatim>\<open>fmt.Errorf("external control not available: %s", mode.String())\<close>.
\<close>

datatype error =
    External string
  | InvalidStatus int
  | InvalidLength
  | ExternalControlNotAvailable string

subsection \<open>float64\<close>

text \<open>
  A \<^verbatim>\<open>float64\<close> is an IEEE 754 binary64 value: \<open>Finite s m e\<close> is
  \<open>(-1)\<^sup>s * m * 2\<^sup>e\<close> (a binary64 has \<open>m < 2\<^sup>5\<^sup>3\<close> and \<open>-1074 \<le> e\<close>), besides the
  two infinities and NaN. \<open>round64\<close> rounds an exact dyadic value to the nearest
  binary64, ties to even, as the hardware multiplication does; a magnitude of
  \<open>2\<^sup>1\<^sup>0\<^sup>2\<^sup>4\<close> or more after rounding overflows to infinity.
\<close>

datatype float64 = Finite bool nat int | Infinity bool | NaN

fun bitlen :: "nat \<Rightarrow> nat" where
  "bitlen n = (if n = 0 then 0 else Suc (bitlen (n div 2)))"

declare bitlen.simps [simp del]

definition round64 :: "bool \<Rightarrow> nat \<Rightarrow> int \<Rightarrow> float64" where
  "round64 s m e =
     (let k = nat (max (max (int (bitlen m) - 53) (- 1074 - e)) 0);
          q = m div 2 ^ k;
          r = m mod 2 ^ k;
          q' = (if 2 ^ k < 2 * r \<or> (2 * r = 2 ^ k \<and> odd q) then q + 1 else q)
      in if q' \<noteq> 0 \<and> 1024 < int (bitlen q') + (e + int k)
         then Infinity s else Finite s q' (e + int k))"

fun float64_mul :: "float64 \<Rightarrow> float64 \<Rightarrow> float64" where
  "float64_mul NaN y = NaN"
| "float64_mul x NaN = NaN"
| "float64_mul (Infinity s) (Infinity t) = Infinity (s \<noteq> t)"
| "float64_mul (Infinity s) (Finite t n f) = (if n = 0 then NaN else Infinity (s \<noteq> t))"
| "float64_mul (Finite s m e) (Infinity t) = (if m = 0 then NaN else Infinity (s \<noteq> t))"
| "float64_mul (Finite s m e) (Finite t n f) = round64 (s \<noteq> t) (m * n) (e + f)"

text \<open>The constant \<^verbatim>\<open>1e3\<close>.\<close>

definition f1e3 :: float64 where
  "f1e3 = Finite False 1000 0"

text \<open>The integral part of a finite value, the fraction discarded (towards zero).\<close>

fun float64_trunc :: "float64 \<Rightarrow> int option" where
  "float64_trunc (Finite s m e) =
     Some (let t = (if 0 \<le> e then int m * 2 ^ nat e else int m div 2 ^ nat (- e))
           in if s then - t else t)"
| "float64_trunc (Infinity s) = None"
| "float64_trunc NaN = None"

text \<open>
  The conversion \<^verbatim>\<open>int64(f)\<close>. The Go specification: the fraction is discarded
  (truncation towards zero); where the result type cannot represent the value
  (out of range, infinite, NaN) the conversion succeeds and its result is
  implementation-dependent. That result is the parameter \<open>oob\<close>.
\<close>

definition float64_to_int64 :: "(float64 \<Rightarrow> int64) \<Rightarrow> float64 \<Rightarrow> int64" where
  "float64_to_int64 oob f =
     (case float64_trunc f of
        Some v \<Rightarrow> if - (2 ^ 63) \<le> v \<and> v < 2 ^ 63 then word_of_int v else oob f
      | None \<Rightarrow> oob f)"

text \<open>The conversion \<^verbatim>\<open>float64(n)\<close> of an \<^verbatim>\<open>int64\<close>: the nearest binary64.\<close>

definition float64_of_int64 :: "int64 \<Rightarrow> float64" where
  "float64_of_int64 n = round64 (sint n < 0) (nat \<bar>sint n\<bar>) 0"

text \<open>The value of a finite \<^verbatim>\<open>float64\<close> as a real number.\<close>

fun float64_real :: "float64 \<Rightarrow> real option" where
  "float64_real (Finite s m e) = Some ((if s then - 1 else 1) * real m * 2 powi e)"
| "float64_real (Infinity s) = None"
| "float64_real NaN = None"

section \<open>The message bus and the provider\<close>

text \<open>
  Modelled from the spec: the publish/subscribe transport, the bus client and the
  topic getters and setters of the \<^verbatim>\<open>provider\<close> and \<^verbatim>\<open>mqtt\<close> packages, which are
  not part of the adapter's file. The bus keeps the \<open>trace\<close> of what the adapter did
  on it: a bounded read of a topic, or a publish of an integer on a topic through a
  payload template. Everything the outside world decides is a field of the bus and
  may depend on the trace so far: whether a client can be connected (\<open>dial\<close>),
  whether a topic can be subscribed (\<open>listen\<close>), whether a payload template can be
  prepared for a parameter (\<open>render\<close>), what a read returns (\<open>reply\<close>: a payload,
  or a transport or timeout error) and whether a publish is accepted (\<open>ack\<close>).
\<close>

record mqtt_Config =
  broker :: string
  user :: string
  password :: string

datatype mqtt_Client = Client mqtt_Config

datatype event = Read string | Publish string string int64

record bus =
  trace :: "event list"
  dial :: "mqtt_Config \<Rightarrow> error option"
  listen :: "string \<Rightarrow> error option"
  render :: "string \<Rightarrow> string \<Rightarrow> error option"
  reply :: "event list \<Rightarrow> string \<Rightarrow> error + string"
  ack :: "event list \<Rightarrow> string \<Rightarrow> int64 \<Rightarrow> error option"

type_synonym getter = "bus \<Rightarrow> (error + string) \<times> bus"
type_synonym setter = "int64 \<Rightarrow> bus \<Rightarrow> error option \<times> bus"

text \<open>\<^verbatim>\<open>mqtt.RegisteredClientOrDefault(log, mqttconf)\<close>.\<close>

definition RegisteredClientOrDefault :: "mqtt_Config \<Rightarrow> bus \<Rightarrow> error + mqtt_Client" where
  "RegisteredClientOrDefault conf b =
     (case dial b conf of Some e \<Rightarrow> Inl e | None \<Rightarrow> Inr (Client conf))"

record Mqtt =
  mq_client :: mqtt_Client
  mq_topic :: string
  mq_timeout :: int
  mq_payload :: string

text \<open>\<^verbatim>\<open>provider.NewMqtt(log, client, topic, timeout)\<close> and \<^verbatim>\<open>WithPayload\<close>.\<close>

definition NewMqtt :: "mqtt_Client \<Rightarrow> string \<Rightarrow> int \<Rightarrow> Mqtt" where
  "NewMqtt c t d = \<lparr>mq_client = c, mq_topic = t, mq_timeout = d, mq_payload = []\<rparr>"

definition WithPayload :: "string \<Rightarrow> Mqtt \<Rightarrow> Mqtt" where
  "WithPayload p m = m\<lparr>mq_payload := p\<rparr>"

text \<open>One bounded read of a topic: the event is recorded, the world answers.\<close>

definition bus_read :: "string \<Rightarrow> getter" where
  "bus_read t b = (reply b (trace b) t, b\<lparr>trace := trace b @ [Read t]\<rparr>)"

text \<open>One publish of a value on a topic through a payload template.\<close>

definition bus_publish :: "string \<Rightarrow> string \<Rightarrow> setter" where
  "bus_publish t p v b = (ack b (trace b) t v, b\<lparr>trace := trace b @ [Publish t p v]\<rparr>)"

text \<open>\<^verbatim>\<open>(*Mqtt).StringGetter()\<close>: the getter of the topic, or an error.\<close>

definition StringGetter :: "Mqtt \<Rightarrow> bus \<Rightarrow> error + getter" where
  "StringGetter m b =
     (case listen b (mq_topic m) of Some e \<Rightarrow> Inl e | None \<Rightarrow> Inr (bus_read (mq_topic m)))"

text \<open>
  \<^verbatim>\<open>(*Mqtt).IntSetter(param)\<close>: the setter that publishes the payload template
  with the value in the place of \<^verbatim>\<open>${param}\<close>, or an error.
\<close>

definition IntSetter :: "string \<Rightarrow> Mqtt \<Rightarrow> bus \<Rightarrow> error + setter" where
  "IntSetter param m b =
     (case render b (mq_payload m) param of
        Some e \<Rightarrow> Inl e
      | None \<Rightarrow> Inr (bus_publish (mq_topic m) (mq_payload m)))"

text \<open>
  The timeout-bounded getter (\<^verbatim>\<open>provider.NewTimeoutHandler\<close> and its
  \<^verbatim>\<open>StringGetter\<close>): it is built from the getter of the freshness anchor and
  wraps the getter of a topic into one bounded read, which returns the most recent
  payload or fails with a timeout error (one of the answers of \<open>reply\<close>).
\<close>

datatype TimeoutHandler = NewTimeoutHandler getter

definition to_StringGetter :: "TimeoutHandler \<Rightarrow> Mqtt \<Rightarrow> bus \<Rightarrow> error + getter" where
  "to_StringGetter h p b = StringGetter p b"

section \<open>The payload types and the external functions\<close>

text \<open>
  Modelled from the spec: the payload types of the \<^verbatim>\<open>warp\<close> package, with the
  fields the adapter reads. The applied-current state has a current field (mA), the
  charge state a numeric state code, the metering snapshot a power and a cumulative
  energy, the charge session a nested tag id, the energy-manager state a control
  mode (an integer enumeration: 0 is available, 1 and above are not).
\<close>

record EvseExternalCurrent =
  Current :: int

record EvseState =
  Iec61851State :: int

record MeterValues =
  Power :: float64
  EnergyAbs :: float64

record AuthorizationInfoT =
  TagId :: string

record ChargeTrackerCurrentCharge =
  AuthorizationInfo :: AuthorizationInfoT

record EmState =
  ExternalControl :: int

text \<open>Modelled from the spec: \<^verbatim>\<open>api.ChargeStatus\<close> with the states the adapter reports.\<close>

datatype ChargeStatus = StatusNone | StatusA | StatusB | StatusC

text \<open>The configuration \<^verbatim>\<open>cc\<close> that \<^verbatim>\<open>NewWarp2FromConfig\<close> decodes.\<close>

record cc =
  cc_Config :: mqtt_Config
  cc_Topic :: string
  cc_EnergyManager :: string
  cc_Timeout :: int

text \<open>
  The functions and constants of other packages that the adapter calls and that
  are parameters of the model: the constants of the \<^verbatim>\<open>warp\<close> package,
  \<^verbatim>\<open>util.DecodeOther\<close> (over any type \<open>'o\<close> of raw configuration),
  \<^verbatim>\<open>json.Unmarshal\<close> at each target type, the \<^verbatim>\<open>String\<close> method of the control
  mode and the implementation-dependent result of an unrepresentable
  \<^verbatim>\<open>int64(f)\<close>. \<^verbatim>\<open>json.Unmarshal(data, &v)\<close> and \<^verbatim>\<open>DecodeOther(other, &cc)\<close> write
  through a pointer and return an error: they take the target's value before the call
  and return its value after the call beside the error (a target may be written to
  even when an error is returned).
\<close>

record 'o deps =
  warp_RootTopic :: string
  warp_Timeout :: int
  warp_FeatureMeter :: string
  warp_FeatureMeterPhases :: string
  warp_FeatureNfc :: string
  DecodeOther :: "'o \<Rightarrow> cc \<Rightarrow> cc \<times> error option"
  Unmarshal_strings :: "string \<Rightarrow> string list option \<Rightarrow> string list option \<times> error option"
  Unmarshal_EvseExternalCurrent :: "string \<Rightarrow> EvseExternalCurrent \<Rightarrow> EvseExternalCurrent \<times> error option"
  Unmarshal_EvseState :: "string \<Rightarrow> EvseState \<Rightarrow> EvseState \<times> error option"
  Unmarshal_MeterValues :: "string \<Rightarrow> MeterValues \<Rightarrow> MeterValues \<times> error option"
  Unmarshal_floats :: "string \<Rightarrow> float64 list \<Rightarrow> float64 list \<times> error option"
  Unmarshal_ChargeTrackerCurrentCharge ::
    "string \<Rightarrow> ChargeTrackerCurrentCharge \<Rightarrow> ChargeTrackerCurrentCharge \<times> error option"
  Unmarshal_EmState :: "string \<Rightarrow> EmState \<Rightarrow> EmState \<times> error option"
  ExternalControl_String :: "int \<Rightarrow> string"
  int64_oob :: "float64 \<Rightarrow> int64"

section \<open>The adapter\<close>

text \<open>
  The struct \<^verbatim>\<open>Warp2\<close>: the client, the cached feature list (\<open>None\<close> is the nil
  slice), the getters and setters bound at construction and the cached
  last-applied current in mA. (The logger has no part in what the adapter computes.)
  A method takes the adapter's state and the bus, and returns its results, the
  adapter's state when it can change it, and the bus.
\<close>

record Warp2 =
  client :: mqtt_Client
  features :: "string list option"
  maxcurrentG :: getter
  statusG :: getter
  meterG :: getter
  meterDetailsG :: getter
  chargeG :: getter
  userconfigG :: getter
  emStateG :: getter
  maxcurrentS :: setter
  phasesS :: setter
  current :: int64

text \<open>\<^verbatim>\<open>if err != nil { return nil, err }\<close> after a call that returns a value and an error.\<close>

definition bindE :: "error + 'a \<Rightarrow> ('a \<Rightarrow> error + 'b) \<Rightarrow> error + 'b" where
  "bindE r f = (case r of Inl e \<Rightarrow> Inl e | Inr v \<Rightarrow> f v)"

definition NewWarp2 :: "mqtt_Config \<Rightarrow> string \<Rightarrow> string \<Rightarrow> int \<Rightarrow> bus \<Rightarrow> error + Warp2" where
  \<open>NewWarp2 mqttconf topic emTopic timeout b =
     bindE (RegisteredClientOrDefault mqttconf b) (\<lambda>cl.
     bindE (StringGetter (NewMqtt cl (topic @ ''/evse/low_level_state'') timeout) b) (\<lambda>h.
     let to = NewTimeoutHandler h;
         mq = (\<lambda>s. NewMqtt cl s 0)
     in
     bindE (to_StringGetter to (mq (topic @ ''/evse/external_current'')) b) (\<lambda>g1.
     bindE (to_StringGetter to (mq (topic @ ''/evse/state'')) b) (\<lambda>g2.
     bindE (to_StringGetter to (mq (topic @ ''/meter/values'')) b) (\<lambda>g3.
     bindE (to_StringGetter to (mq (topic @ ''/meter/all_values'')) b) (\<lambda>g4.
     bindE (to_StringGetter to (mq (topic @ ''/charge_tracker/current_charge'')) b) (\<lambda>g5.
     bindE (to_StringGetter to (mq (topic @ ''/users/config'')) b) (\<lambda>g6.
     bindE (IntSetter ''maxcurrent''
              (WithPayload ''{ "current": ${maxcurrent} }''
                 (NewMqtt cl (topic @ ''/evse/external_current_update'') 0)) b) (\<lambda>s1.
     bindE (to_StringGetter to (mq (emTopic @ ''/energy_manager/state'')) b) (\<lambda>g7.
     bindE (IntSetter ''phases''
              (WithPayload ''{ "phases_wanted": ${phases} }''
                 (NewMqtt cl (emTopic @ ''/energy_manager/external_control_update'') 0)) b) (\<lambda>s2.
     Inr \<lparr>client = cl, features = None,
          maxcurrentG = g1, statusG = g2, meterG = g3, meterDetailsG = g4,
          chargeG = g5, userconfigG = g6, emStateG = g7,
          maxcurrentS = s1, phasesS = s2, current = 6000\<rparr>)))))))))))\<close>

text \<open>\<^verbatim>\<open>slices.Contains\<close> on a slice that may be nil.\<close>

definition slices_Contains :: "string list option \<Rightarrow> string \<Rightarrow> bool" where
  "slices_Contains fs f = (case fs of None \<Rightarrow> False | Some xs \<Rightarrow> f \<in> set xs)"

definition hasFeature ::
  "'o deps \<Rightarrow> string \<Rightarrow> string \<Rightarrow> int \<Rightarrow> Warp2 \<Rightarrow> bus \<Rightarrow> bool \<times> Warp2 \<times> bus" where
  "hasFeature x root0 feature timeout wb b =
     (if features wb \<noteq> None then (slices_Contains (features wb) feature, wb, b)
      else
        let topic = root0 @ ''/info/features'' in
        case StringGetter (NewMqtt (client wb) topic timeout) b of
          Inl err \<Rightarrow> (False, wb, b)
        | Inr dataG \<Rightarrow>
            (case dataG b of
               (Inl err, b') \<Rightarrow> (False, wb, b')
             | (Inr data, b') \<Rightarrow>
                 (case Unmarshal_strings x data (features wb) of
                    (fs, Some err) \<Rightarrow> (False, wb\<lparr>features := fs\<rparr>, b')
                  | (fs, None) \<Rightarrow>
                      (slices_Contains fs feature, wb\<lparr>features := fs\<rparr>, b'))))"

definition Enable :: "bool \<Rightarrow> Warp2 \<Rightarrow> bus \<Rightarrow> error option \<times> bus" where
  "Enable enable wb b =
     (let current0 = 0;
          current1 = (if enable then current wb else current0)
      in maxcurrentS wb current1 b)"

definition Enabled :: "'o deps \<Rightarrow> Warp2 \<Rightarrow> bus \<Rightarrow> (bool \<times> error option) \<times> bus" where
  "Enabled x wb b =
     (let res0 = \<lparr>Current = 0\<rparr> in
      case maxcurrentG wb b of
        (Inl err, b') \<Rightarrow> ((6000 \<le> Current res0, Some err), b')
      | (Inr s, b') \<Rightarrow>
          (case Unmarshal_EvseExternalCurrent x s res0 of
             (res, err) \<Rightarrow> ((6000 \<le> Current res, err), b')))"

definition Status :: "'o deps \<Rightarrow> Warp2 \<Rightarrow> bus \<Rightarrow> (ChargeStatus \<times> error option) \<times> bus" where
  "Status x wb b =
     (let res = StatusNone in
      case statusG wb b of
        (Inl err, b') \<Rightarrow> ((res, Some err), b')
      | (Inr s, b') \<Rightarrow>
          (case Unmarshal_EvseState x s \<lparr>Iec61851State = 0\<rparr> of
             (status, Some err) \<Rightarrow> ((res, Some err), b')
           | (status, None) \<Rightarrow>
               (if Iec61851State status = 0 then ((StatusA, None), b')
                else if Iec61851State status = 1 then ((StatusB, None), b')
                else if Iec61851State status = 2 then ((StatusC, None), b')
                else ((res, Some (InvalidStatus (Iec61851State status))), b'))))"

definition MaxCurrentMillis ::
  "'o deps \<Rightarrow> float64 \<Rightarrow> Warp2 \<Rightarrow> bus \<Rightarrow> error option \<times> Warp2 \<times> bus" where
  "MaxCurrentMillis x current0 wb b =
     (let curr = float64_to_int64 (int64_oob x) (float64_mul current0 f1e3) in
      case maxcurrentS wb curr b of
        (err, b') \<Rightarrow> (err, if err = None then wb\<lparr>current := curr\<rparr> else wb, b'))"

definition MaxCurrent :: "'o deps \<Rightarrow> int64 \<Rightarrow> Warp2 \<Rightarrow> bus \<Rightarrow> error option \<times> Warp2 \<times> bus" where
  "MaxCurrent x current0 wb b = MaxCurrentMillis x (float64_of_int64 current0) wb b"

definition currentPower :: "'o deps \<Rightarrow> Warp2 \<Rightarrow> bus \<Rightarrow> (float64 \<times> error option) \<times> bus" where
  "currentPower x wb b =
     (let res0 = \<lparr>Power = Finite False 0 0, EnergyAbs = Finite False 0 0\<rparr> in
      case meterG wb b of
        (Inl err, b') \<Rightarrow> ((Power res0, Some err), b')
      | (Inr s, b') \<Rightarrow>
          (case Unmarshal_MeterValues x s res0 of (res, err) \<Rightarrow> ((Power res, err), b')))"

definition totalEnergy :: "'o deps \<Rightarrow> Warp2 \<Rightarrow> bus \<Rightarrow> (float64 \<times> error option) \<times> bus" where
  "totalEnergy x wb b =
     (let res0 = \<lparr>Power = Finite False 0 0, EnergyAbs = Finite False 0 0\<rparr> in
      case meterG wb b of
        (Inl err, b') \<Rightarrow> ((EnergyAbs res0, Some err), b')
      | (Inr s, b') \<Rightarrow>
          (case Unmarshal_MeterValues x s res0 of (res, err) \<Rightarrow> ((EnergyAbs res, err), b')))"

definition meterValues :: "'o deps \<Rightarrow> Warp2 \<Rightarrow> bus \<Rightarrow> (error + float64 list) \<times> bus" where
  "meterValues x wb b =
     (case meterDetailsG wb b of
        (Inl err, b') \<Rightarrow> (Inl err, b')
      | (Inr s, b') \<Rightarrow>
          (case Unmarshal_floats x s [] of
             (res, Some err) \<Rightarrow> (Inl err, b')
           | (res, None) \<Rightarrow>
               if length res \<le> 5 then (Inl InvalidLength, b') else (Inr res, b')))"

definition currents ::
  "'o deps \<Rightarrow> Warp2 \<Rightarrow> bus \<Rightarrow> (error + float64 \<times> float64 \<times> float64) \<times> bus" where
  "currents x wb b =
     (case meterValues x wb b of
        (Inl err, b') \<Rightarrow> (Inl err, b')
      | (Inr res, b') \<Rightarrow> (Inr (res ! 3, res ! 4, res ! 5), b'))"

definition voltages ::
  "'o deps \<Rightarrow> Warp2 \<Rightarrow> bus \<Rightarrow> (error + float64 \<times> float64 \<times> float64) \<times> bus" where
  "voltages x wb b =
     (case meterValues x wb b of
        (Inl err, b') \<Rightarrow> (Inl err, b')
      | (Inr res, b') \<Rightarrow> (Inr (res ! 0, res ! 1, res ! 2), b'))"

definition identify :: "'o deps \<Rightarrow> Warp2 \<Rightarrow> bus \<Rightarrow> (string \<times> error option) \<times> bus" where
  "identify x wb b =
     (let res0 = \<lparr>AuthorizationInfo = \<lparr>TagId = []\<rparr>\<rparr> in
      case chargeG wb b of
        (Inl err, b') \<Rightarrow> ((TagId (AuthorizationInfo res0), Some err), b')
      | (Inr s, b') \<Rightarrow>
          (case Unmarshal_ChargeTrackerCurrentCharge x s res0 of
             (res, err) \<Rightarrow> ((TagId (AuthorizationInfo res), err), b')))"

definition emState :: "'o deps \<Rightarrow> Warp2 \<Rightarrow> bus \<Rightarrow> (EmState \<times> error option) \<times> bus" where
  "emState x wb b =
     (let res0 = \<lparr>ExternalControl = 0\<rparr> in
      case emStateG wb b of
        (Inl err, b') \<Rightarrow> ((res0, Some err), b')
      | (Inr s, b') \<Rightarrow>
          (case Unmarshal_EmState x s res0 of (res, err) \<Rightarrow> ((res, err), b')))"

definition phases1p3p :: "'o deps \<Rightarrow> int \<Rightarrow> Warp2 \<Rightarrow> bus \<Rightarrow> error option \<times> bus" where
  "phases1p3p x phases wb b =
     (case emState x wb b of
        ((res, Some err), b') \<Rightarrow> (Some err, b')
      | ((res, None), b') \<Rightarrow>
          if 0 < ExternalControl res
          then (Some (ExternalControlNotAvailable
                        (ExternalControl_String x (ExternalControl res))), b')
          else phasesS wb (word_of_int phases) b')"

subsection \<open>The capability composer\<close>

text \<open>
  Modelled from the spec: the generated decorator \<^verbatim>\<open>decorateWarp2\<close>, which returns
  a charger that has the base contract of the adapter and each optional contract
  whose function it was given (\<open>None\<close> is the nil function: the contract is absent).
\<close>

record Charger =
  base :: Warp2
  ch_currentPower :: "(Warp2 \<Rightarrow> bus \<Rightarrow> (float64 \<times> error option) \<times> bus) option"
  ch_totalEnergy :: "(Warp2 \<Rightarrow> bus \<Rightarrow> (float64 \<times> error option) \<times> bus) option"
  ch_currents :: "(Warp2 \<Rightarrow> bus \<Rightarrow> (error + float64 \<times> float64 \<times> float64) \<times> bus) option"
  ch_voltages :: "(Warp2 \<Rightarrow> bus \<Rightarrow> (error + float64 \<times> float64 \<times> float64) \<times> bus) option"
  ch_identity :: "(Warp2 \<Rightarrow> bus \<Rightarrow> (string \<times> error option) \<times> bus) option"
  ch_phases :: "(int \<Rightarrow> Warp2 \<Rightarrow> bus \<Rightarrow> error option \<times> bus) option"

definition decorateWarp2 ::
  "Warp2 \<Rightarrow> (Warp2 \<Rightarrow> bus \<Rightarrow> (float64 \<times> error option) \<times> bus) option
     \<Rightarrow> (Warp2 \<Rightarrow> bus \<Rightarrow> (float64 \<times> error option) \<times> bus) option
     \<Rightarrow> (Warp2 \<Rightarrow> bus \<Rightarrow> (error + float64 \<times> float64 \<times> float64) \<times> bus) option
     \<Rightarrow> (Warp2 \<Rightarrow> bus \<Rightarrow> (error + float64 \<times> float64 \<times> float64) \<times> bus) option
     \<Rightarrow> (Warp2 \<Rightarrow> bus \<Rightarrow> (string \<times> error option) \<times> bus) option
     \<Rightarrow> (int \<Rightarrow> Warp2 \<Rightarrow> bus \<Rightarrow> error option \<times> bus) option \<Rightarrow> Charger" where
  "decorateWarp2 wb cp te cu vo idn ph =
     \<lparr>base = wb, ch_currentPower = cp, ch_totalEnergy = te, ch_currents = cu,
      ch_voltages = vo, ch_identity = idn, ch_phases = ph\<rparr>"

definition NewWarp2FromConfig :: "'o deps \<Rightarrow> 'o \<Rightarrow> bus \<Rightarrow> (error + Charger) \<times> bus" where
  "NewWarp2FromConfig x other b =
     (let cc0 = \<lparr>cc_Config = \<lparr>broker = [], user = [], password = []\<rparr>,
                 cc_Topic = warp_RootTopic x, cc_EnergyManager = [],
                 cc_Timeout = warp_Timeout x\<rparr> in
      case DecodeOther x other cc0 of
        (c, Some err) \<Rightarrow> (Inl err, b)
      | (c, None) \<Rightarrow>
          (case NewWarp2 (cc_Config c) (cc_Topic c) (cc_EnergyManager c) (cc_Timeout c) b of
             Inl err \<Rightarrow> (Inl err, b)
           | Inr wb \<Rightarrow>
               (case hasFeature x (cc_Topic c) (warp_FeatureMeter x) (cc_Timeout c) wb b of
                  (m, wb1, b1) \<Rightarrow>
               (case hasFeature x (cc_Topic c) (warp_FeatureMeterPhases x) (cc_Timeout c) wb1 b1 of
                  (p, wb2, b2) \<Rightarrow>
               (case hasFeature x (cc_Topic c) (warp_FeatureNfc x) (cc_Timeout c) wb2 b2 of
                  (n, wb3, b3) \<Rightarrow>
               (case (if cc_EnergyManager c \<noteq> []
                      then (case emState x wb3 b3 of
                              ((res, err), b') \<Rightarrow>
                                (if err = None \<and> ExternalControl res \<noteq> 1
                                 then Some (phases1p3p x) else None, b'))
                      else (None, b3)) of
                  (phases, b4) \<Rightarrow>
                    (Inr (decorateWarp2 wb3
                            (if m then Some (currentPower x) else None)
                            (if m then Some (totalEnergy x) else None)
                            (if p then Some (currents x) else None)
                            (if p then Some (voltages x) else None)
                            (if n then Some (identify x) else None)
                            phases), b4)))))))"

subsection \<open>Sequences of calls\<close>

text \<open>
  A caller's sequence of calls of the base charger contract, run in order on one
  adapter; the history keeps each call with the error it returned.
\<close>

datatype call =
    CallEnable bool
  | CallEnabled
  | CallStatus
  | CallMaxCurrent int64
  | CallMaxCurrentMillis float64

fun invoke :: "'o deps \<Rightarrow> call \<Rightarrow> Warp2 \<Rightarrow> bus \<Rightarrow> error option \<times> Warp2 \<times> bus" where
  "invoke x (CallEnable on) wb b = (case Enable on wb b of (err, b') \<Rightarrow> (err, wb, b'))"
| "invoke x CallEnabled wb b = (case Enabled x wb b of ((r, err), b') \<Rightarrow> (err, wb, b'))"
| "invoke x CallStatus wb b = (case Status x wb b of ((r, err), b') \<Rightarrow> (err, wb, b'))"
| "invoke x (CallMaxCurrent n) wb b = MaxCurrent x n wb b"
| "invoke x (CallMaxCurrentMillis a) wb b = MaxCurrentMillis x a wb b"

fun run ::
  "'o deps \<Rightarrow> call list \<Rightarrow> Warp2 \<Rightarrow> bus \<Rightarrow> (call \<times> error option) list \<times> Warp2 \<times> bus" where
  "run x [] wb b = ([], wb, b)"
| "run x (c # cs) wb b =
     (case invoke x c wb b of
        (err, wb', b') \<Rightarrow>
          (case run x cs wb' b' of (h, wb'', b'') \<Rightarrow> ((c, err) # h, wb'', b'')))"

text \<open>A caller's sequence of feature queries on one adapter.\<close>

fun hasFeatures ::
  "'o deps \<Rightarrow> string \<Rightarrow> int \<Rightarrow> string list \<Rightarrow> Warp2 \<Rightarrow> bus \<Rightarrow> bool list \<times> Warp2 \<times> bus" where
  "hasFeatures x root0 timeout [] wb b = ([], wb, b)"
| "hasFeatures x root0 timeout (f # fs) wb b =
     (case hasFeature x root0 f timeout wb b of
        (r, wb', b') \<Rightarrow>
          (case hasFeatures x root0 timeout fs wb' b' of
             (rs, wb'', b'') \<Rightarrow> (r # rs, wb'', b'')))"

subsection \<open>The specification's words\<close>

text \<open>
  The milliamp value of a current in amps: \<^verbatim>\<open>int64(current * 1e3)\<close>, the
  fractional milliamps truncated.
\<close>

definition milliamps :: "'o deps \<Rightarrow> float64 \<Rightarrow> int64" where
  "milliamps x a = float64_to_int64 (int64_oob x) (float64_mul a f1e3)"

text \<open>
  The last successfully-applied current of a history, from the initial one: the
  milliamp value of the last \<^verbatim>\<open>MaxCurrent\<close> or \<^verbatim>\<open>MaxCurrentMillis\<close> call that returned no
  error.
\<close>

fun last_applied :: "'o deps \<Rightarrow> int64 \<Rightarrow> (call \<times> error option) list \<Rightarrow> int64" where
  "last_applied x c [] = c"
| "last_applied x c ((CallMaxCurrentMillis a, None) # h) = last_applied x (milliamps x a) h"
| "last_applied x c ((CallMaxCurrent n, None) # h) =
     last_applied x (milliamps x (float64_of_int64 n)) h"
| "last_applied x c (e # h) = last_applied x c h"

text \<open>
  The last successfully-applied nonzero current of a history: as before, a call
  that applied zero left out.
\<close>

fun last_applied_nonzero :: "'o deps \<Rightarrow> int64 \<Rightarrow> (call \<times> error option) list \<Rightarrow> int64" where
  "last_applied_nonzero x c [] = c"
| "last_applied_nonzero x c ((CallMaxCurrentMillis a, None) # h) =
     last_applied_nonzero x (if milliamps x a = 0 then c else milliamps x a) h"
| "last_applied_nonzero x c ((CallMaxCurrent n, None) # h) =
     last_applied_nonzero x
       (if milliamps x (float64_of_int64 n) = 0 then c else milliamps x (float64_of_int64 n)) h"
| "last_applied_nonzero x c (e # h) = last_applied_nonzero x c h"

text \<open>A call of the history that applied a current: one that set it and returned no error.\<close>

fun applied :: "call \<times> error option \<Rightarrow> bool" where
  "applied (CallMaxCurrent n, None) = True"
| "applied (CallMaxCurrentMillis a, None) = True"
| "applied e = False"

text \<open>A real number with its fraction discarded (towards zero).\<close>

definition trunc0 :: "real \<Rightarrow> int" where
  "trunc0 r = (if r < 0 then \<lceil>r\<rceil> else \<lfloor>r\<rfloor>)"

text \<open>
  The probe of feature discovery at a trace of the bus: the subscription to the
  capability-list topic, one read of it and the decoding of the payload into the
  empty cache. Its outcome is the feature list it leaves in the cache and the error it
  ends with.
\<close>

definition probe ::
  "'o deps \<Rightarrow> bus \<Rightarrow> event list \<Rightarrow> string \<Rightarrow> string list option \<times> error option" where
  "probe x b tr t =
     (case listen b t of
        Some e \<Rightarrow> (None, Some e)
      | None \<Rightarrow>
          (case reply b tr t of
             Inl e \<Rightarrow> (None, Some e)
           | Inr d \<Rightarrow> Unmarshal_strings x d None))"

section \<open>Sample collaborators\<close>

text \<open>
  One concrete choice of the external functions and of the bus, on which the
  theorems below are instantiated. The decoders agree with \<^verbatim>\<open>encoding/json\<close> on the
  payloads they know and reject every other payload; the raw configuration is a
  list of keys and values; an unrepresentable \<^verbatim>\<open>int64(f)\<close> is the smallest
  \<^verbatim>\<open>int64\<close>.
\<close>

definition sample_DecodeOther :: "(string \<times> string) list \<Rightarrow> cc \<Rightarrow> cc \<times> error option" where
  "sample_DecodeOther other c =
     (c\<lparr>cc_Topic := (case map_of other ''topic'' of Some t \<Rightarrow> t | None \<Rightarrow> cc_Topic c),
        cc_EnergyManager :=
          (case map_of other ''energymanager'' of Some t \<Rightarrow> t | None \<Rightarrow> cc_EnergyManager c)\<rparr>,
      None)"

definition sample_Unmarshal_strings ::
  "string \<Rightarrow> string list option \<Rightarrow> string list option \<times> error option" where
  \<open>sample_Unmarshal_strings s v =
     (if s = ''["meter","meter_phases","nfc"]''
      then (Some [''meter'', ''meter_phases'', ''nfc''], None)
      else if s = ''["meter_phases",1]''
      then (Some [''meter_phases'', []],
            Some (External ''json: cannot unmarshal number into Go value of type string''))
      else (v, Some (External ''invalid character'')))\<close>

definition sample_Unmarshal_EvseExternalCurrent ::
  "string \<Rightarrow> EvseExternalCurrent \<Rightarrow> EvseExternalCurrent \<times> error option" where
  \<open>sample_Unmarshal_EvseExternalCurrent s v =
     (if s = ''{"current":16000}'' then (v\<lparr>Current := 16000\<rparr>, None)
      else if s = ''{"current":0}'' then (v\<lparr>Current := 0\<rparr>, None)
      else (v, Some (External ''invalid character'')))\<close>

definition sample_Unmarshal_EvseState :: "string \<Rightarrow> EvseState \<Rightarrow> EvseState \<times> error option" where
  \<open>sample_Unmarshal_EvseState s v =
     (if s = ''{"iec61851_state":2}'' then (v\<lparr>Iec61851State := 2\<rparr>, None)
      else if s = ''{"iec61851_state":4}'' then (v\<lparr>Iec61851State := 4\<rparr>, None)
      else (v, Some (External ''invalid character'')))\<close>

definition sample_Unmarshal_floats :: "string \<Rightarrow> float64 list \<Rightarrow> float64 list \<times> error option" where
  \<open>sample_Unmarshal_floats s v =
     (if s = ''[230,231,232,6,7,8]''
      then ([Finite False 230 0, Finite False 231 0, Finite False 232 0,
             Finite False 6 0, Finite False 7 0, Finite False 8 0], None)
      else if s = ''[230,231,232,6,7]''
      then ([Finite False 230 0, Finite False 231 0, Finite False 232 0,
             Finite False 6 0, Finite False 7 0], None)
      else if s = ''[230,231,232,6,7,8,50]''
      then ([Finite False 230 0, Finite False 231 0, Finite False 232 0,
             Finite False 6 0, Finite False 7 0, Finite False 8 0, Finite False 50 0], None)
      else (v, Some (External ''invalid character'')))\<close>

definition sample_Unmarshal_EmState :: "string \<Rightarrow> EmState \<Rightarrow> EmState \<times> error option" where
  \<open>sample_Unmarshal_EmState s v =
     (if s = ''{"external_control":0}'' then (v\<lparr>ExternalControl := 0\<rparr>, None)
      else if s = ''{"external_control":1}'' then (v\<lparr>ExternalControl := 1\<rparr>, None)
      else (v, Some (External ''invalid character'')))\<close>

definition sample_deps :: "(string \<times> string) list deps" where
  "sample_deps =
     \<lparr>warp_RootTopic = ''warp'', warp_Timeout = 30000000000,
      warp_FeatureMeter = ''meter'', warp_FeatureMeterPhases = ''meter_phases'',
      warp_FeatureNfc = ''nfc'',
      DecodeOther = sample_DecodeOther,
      Unmarshal_strings = sample_Unmarshal_strings,
      Unmarshal_EvseExternalCurrent = sample_Unmarshal_EvseExternalCurrent,
      Unmarshal_EvseState = sample_Unmarshal_EvseState,
      Unmarshal_MeterValues = (\<lambda>s v. (v, Some (External ''invalid character''))),
      Unmarshal_floats = sample_Unmarshal_floats,
      Unmarshal_ChargeTrackerCurrentCharge = (\<lambda>s v. (v, Some (External ''invalid character''))),
      Unmarshal_EmState = sample_Unmarshal_EmState,
      ExternalControl_String = (\<lambda>n. if n = 1 then ''deactivated'' else ''unknown''),
      int64_oob = (\<lambda>f. - (2 ^ 63))\<rparr>"

text \<open>
  A device that answers every read and accepts every publish: it is charging,
  at 16 A, with the energy manager available.
\<close>

definition sample_reply :: "event list \<Rightarrow> string \<Rightarrow> error + string" where
  \<open>sample_reply tr t =
     (if t = ''warp/info/features'' then Inr ''["meter","meter_phases","nfc"]''
      else if t = ''warp/evse/state'' then Inr ''{"iec61851_state":2}''
      else if t = ''warp/evse/external_current'' then Inr ''{"current":16000}''
      else if t = ''warp/meter/all_values'' then Inr ''[230,231,232,6,7,8]''
      else if t = ''wem/energy_manager/state'' then Inr ''{"external_control":0}''
      else Inl (External ''timeout''))\<close>

definition sample_bus :: bus where
  "sample_bus =
     \<lparr>trace = [], dial = (\<lambda>c. None), listen = (\<lambda>t. None), render = (\<lambda>p n. None),
      reply = sample_reply, ack = (\<lambda>tr t v. None)\<rparr>"

definition sample_conf :: mqtt_Config where
  "sample_conf = \<lparr>broker = ''localhost:1883'', user = [], password = []\<rparr>"

text \<open>The adapter that \<open>NewWarp2\<close> builds for the roots \<^verbatim>\<open>warp\<close> and \<^verbatim>\<open>wem\<close>.\<close>

definition sample_wb :: Warp2 where
  \<open>sample_wb =
     \<lparr>client = Client sample_conf, features = None,
      maxcurrentG = bus_read ''warp/evse/external_current'',
      statusG = bus_read ''warp/evse/state'',
      meterG = bus_read ''warp/meter/values'',
      meterDetailsG = bus_read ''warp/meter/all_values'',
      chargeG = bus_read ''warp/charge_tracker/current_charge'',
      userconfigG = bus_read ''warp/users/config'',
      emStateG = bus_read ''wem/energy_manager/state'',
      maxcurrentS = bus_publish ''warp/evse/external_current_update'' ''{ "current": ${maxcurrent} }'',
      phasesS = bus_publish ''wem/energy_manager/external_control_update''
                  ''{ "phases_wanted": ${phases} }'',
      current = 6000\<rparr>\<close>

text \<open>The \<^verbatim>\<open>float64\<close> nearest to 6.3, and 16 and 0.\<close>

definition f6_3 :: float64 where
  "f6_3 = Finite False 7093169413108531 (- 50)"

definition f16 :: float64 where
  "f16 = Finite False 16 0"

definition f0 :: float64 where
  "f0 = Finite False 0 0"

text \<open>
  The \<^verbatim>\<open>float64\<close> nearest to 9223372036854775.808, which is 9223372036854776: its
  product with \<^verbatim>\<open>1e3\<close> rounds to \<open>2\<^sup>6\<^sup>3\<close>, one above the largest \<^verbatim>\<open>int64\<close>.
\<close>

definition f9e15 :: float64 where
  "f9e15 = Finite False 4611686018427388 1"

text \<open>
  Three other devices: one that answers no read, one that accepts no publish, and
  one whose first answer on the capability-list topic is a timeout.
\<close>

definition offline_bus :: bus where
  "offline_bus = sample_bus\<lparr>reply := \<lambda>tr t. Inl (External ''timeout'')\<rparr>"

definition refusing_bus :: bus where
  "refusing_bus = sample_bus\<lparr>ack := \<lambda>tr t v. Some (External ''not connected'')\<rparr>"

definition flaky_reply :: "event list \<Rightarrow> string \<Rightarrow> error + string" where
  "flaky_reply tr t =
     (if t = ''warp/info/features'' \<and> tr = [] then Inl (External ''timeout'')
      else sample_reply tr t)"

definition flaky_bus :: bus where
  "flaky_bus = sample_bus\<lparr>reply := flaky_reply\<rparr>"

text \<open>
  A device whose capability list has a number among its strings. \<^verbatim>\<open>encoding/json\<close>
  decodes such an array as far as it can (the mistyped element stays empty) and
  returns the type error.
\<close>

definition mistyped_bus :: bus where
  \<open>mistyped_bus = sample_bus\<lparr>reply := \<lambda>tr t. Inr ''["meter_phases",1]''\<rparr>\<close>

text \<open>
  A device that is silent on the capability-list topic while the adapter is
  constructed (the first three reads time out) and answers afterwards.
\<close>

definition late_reply :: "event list \<Rightarrow> string \<Rightarrow> error + string" where
  "late_reply tr t =
     (if t = ''warp/info/features'' \<and> length tr < 3 then Inl (External ''timeout'')
      else sample_reply tr t)"

definition late_bus :: bus where
  "late_bus = sample_bus\<lparr>reply := late_reply\<rparr>"

text \<open>The adapter that \<open>NewWarp2\<close> builds from the default configuration.\<close>

definition default_conf :: mqtt_Config where
  "default_conf = \<lparr>broker = [], user = [], password = []\<rparr>"

definition default_wb :: Warp2 where
  \<open>default_wb =
     \<lparr>client = Client default_conf, features = None,
      maxcurrentG = bus_read ''warp/evse/external_current'',
      statusG = bus_read ''warp/evse/state'',
      meterG = bus_read ''warp/meter/values'',
      meterDetailsG = bus_read ''warp/meter/all_values'',
      chargeG = bus_read ''warp/charge_tracker/current_charge'',
      userconfigG = bus_read ''warp/users/config'',
      emStateG = bus_read ''/energy_manager/state'',
      maxcurrentS = bus_publish ''warp/evse/external_current_update'' ''{ "current": ${maxcurrent} }'',
      phasesS = bus_publish ''/energy_manager/external_control_update''
                  ''{ "phases_wanted": ${phases} }'',
      current = 6000\<rparr>\<close>

section \<open>Facts about the model\<close>

subsection \<open>The constructed adapter\<close>

text \<open>
  What \<open>NewWarp2\<close> returns when it returns an adapter: each getter is the bounded
  read of its topic, each setter the publish on its topic, no feature list is cached
  and the cached current is 6000 mA.
\<close>

lemma NewWarp2_Inr:
  assumes "NewWarp2 mqttconf topic emTopic timeout b = Inr wb"
  shows \<open>wb =
     \<lparr>client = Client mqttconf, features = None,
      maxcurrentG = bus_read (topic @ ''/evse/external_current''),
      statusG = bus_read (topic @ ''/evse/state''),
      meterG = bus_read (topic @ ''/meter/values''),
      meterDetailsG = bus_read (topic @ ''/meter/all_values''),
      chargeG = bus_read (topic @ ''/charge_tracker/current_charge''),
      userconfigG = bus_read (topic @ ''/users/config''),
      emStateG = bus_read (emTopic @ ''/energy_manager/state''),
      maxcurrentS = bus_publish (topic @ ''/evse/external_current_update'')
                      ''{ "current": ${maxcurrent} }'',
      phasesS = bus_publish (emTopic @ ''/energy_manager/external_control_update'')
                  ''{ "phases_wanted": ${phases} }'',
      current = 6000\<rparr>\<close>
  using assms
  by (auto simp: NewWarp2_def bindE_def RegisteredClientOrDefault_def StringGetter_def
      to_StringGetter_def IntSetter_def NewMqtt_def WithPayload_def Let_def
      split: sum.splits option.splits)

lemma NewWarp2_sample:
  "NewWarp2 sample_conf ''warp'' ''wem'' 30000000000 sample_bus = Inr sample_wb"
  by (simp add: NewWarp2_def bindE_def RegisteredClientOrDefault_def StringGetter_def
      to_StringGetter_def IntSetter_def NewMqtt_def WithPayload_def Let_def
      sample_bus_def sample_wb_def)

lemma bus_read_sample [simp]:
  "bus_read t sample_bus = (sample_reply [] t, sample_bus\<lparr>trace := [Read t]\<rparr>)"
  by (simp add: bus_read_def sample_bus_def)

subsection \<open>Sequences of calls change the cached current only\<close>

lemma bus_publish_fields [simp]:
  "fst (bus_publish t p v b) = ack b (trace b) t v"
  "snd (bus_publish t p v b) = b\<lparr>trace := trace b @ [Publish t p v]\<rparr>"
  by (simp_all add: bus_publish_def)

lemma invoke_adapter:
  assumes "invoke x c wb b = (err, wb', b')"
  shows "wb' = wb\<lparr>current := last_applied x (current wb) [(c, err)]\<rparr>"
proof (cases c)
  case (CallMaxCurrentMillis a)
  then show ?thesis using assms
    by (cases err) (auto simp: MaxCurrentMillis_def milliamps_def Let_def split: prod.splits if_splits)
next
  case (CallMaxCurrent n)
  then show ?thesis using assms
    by (cases err)
      (auto simp: MaxCurrent_def MaxCurrentMillis_def milliamps_def Let_def split: prod.splits if_splits)
qed (use assms in \<open>auto split: prod.splits\<close>)

lemma last_applied_append:
  "last_applied x c (h @ h') = last_applied x (last_applied x c h) h'"
  by (induction x c h rule: last_applied.induct) simp_all

lemma run_adapter:
  "run x cs wb b = (h, wb', b') \<Longrightarrow> wb' = wb\<lparr>current := last_applied x (current wb) h\<rparr>"
proof (induction cs arbitrary: wb b h wb' b')
  case Nil
  then show ?case by simp
next
  case (Cons c cs)
  obtain err wb1 b1 where i: "invoke x c wb b = (err, wb1, b1)"
    by (cases "invoke x c wb b") auto
  obtain h1 wb2 b2 where r: "run x cs wb1 b1 = (h1, wb2, b2)"
    by (cases "run x cs wb1 b1") auto
  from Cons.prems i r have eq: "h = (c, err) # h1" "wb' = wb2" by simp_all
  have w1: "wb1 = wb\<lparr>current := last_applied x (current wb) [(c, err)]\<rparr>"
    by (rule invoke_adapter [OF i])
  have w2: "wb2 = wb1\<lparr>current := last_applied x (current wb1) h1\<rparr>"
    by (rule Cons.IH [OF r])
  have "last_applied x (current wb) h = last_applied x (last_applied x (current wb) [(c, err)]) h1"
    unfolding eq using last_applied_append [of x "current wb" "[(c, err)]" h1] by simp
  then show ?case unfolding eq w2 w1 by simp
qed

lemma last_applied_none:
  "\<forall>e \<in> set h. \<not> applied e \<Longrightarrow> last_applied x c h = c"
  by (induction x c h rule: last_applied.induct) simp_all

subsection \<open>Rounding to binary64\<close>

text \<open>
  \<open>round64\<close> returns a value that a binary64 holds (a significand of at most 53
  bits, the exponent not below the smallest one), within half a unit in the
  last place of the exact value, and the even significand at a tie; a value that a
  binary64 holds is returned as it is.
\<close>

lemma bitlen_bound: "m < 2 ^ bitlen m"
proof (induction m rule: bitlen.induct)
  case (1 n)
  show ?case
  proof (cases "n = 0")
    case True
    then show ?thesis by simp
  next
    case False
    with 1 have "n div 2 < 2 ^ bitlen (n div 2)" by blast
    then have "n < 2 * 2 ^ bitlen (n div 2)" by linarith
    with False show ?thesis by (subst bitlen.simps) simp
  qed
qed

lemma round64_exact:
  assumes "bitlen m \<le> 53" and "- 1074 \<le> e" and "int (bitlen m) + e \<le> 1024"
  shows "round64 s m e = Finite s m e"
proof -
  have k: "nat (max (max (int (bitlen m) - 53) (- 1074 - e)) 0) = 0"
    using assms(1,2) by linarith
  show ?thesis
    unfolding round64_def k Let_def using assms(3) by simp
qed

lemma round64_nearest:
  assumes "round64 s m e = Finite s' q e'"
  shows "s' = s \<and> e \<le> e' \<and> - 1074 \<le> e' \<and> q \<le> 2 ^ 53 \<and>
         2 * \<bar>int q * 2 ^ nat (e' - e) - int m\<bar> \<le> 2 ^ nat (e' - e) \<and>
         (2 * \<bar>int q * 2 ^ nat (e' - e) - int m\<bar> = 2 ^ nat (e' - e) \<and> e < e' \<longrightarrow> even q)"
proof -
  define k where "k = nat (max (max (int (bitlen m) - 53) (- 1074 - e)) 0)"
  define q0 where "q0 = m div 2 ^ k"
  define r where "r = m mod 2 ^ k"
  define up where "up \<longleftrightarrow> 2 ^ k < 2 * r \<or> (2 * r = 2 ^ k \<and> odd q0)"
  have m: "m = q0 * 2 ^ k + r" unfolding q0_def r_def by (rule div_mult_mod_eq [symmetric])
  have rlt: "r < 2 ^ k" by (simp add: r_def)
  define qq where "qq = (if up then q0 + 1 else q0)"
  have R: "round64 s m e =
      (if qq \<noteq> 0 \<and> 1024 < int (bitlen qq) + (e + int k)
       then Infinity s else Finite s qq (e + int k))"
    unfolding round64_def Let_def qq_def up_def q0_def r_def k_def by (rule refl)
  have "Finite s' q e' = Finite s qq (e + int k)"
    using assms unfolding R by (simp split: if_splits)
  then have res: "s' = s" "q = (if up then q0 + 1 else q0)" "e' = e + int k"
    unfolding qq_def by simp_all
  have ek: "nat (e' - e) = k" using res(3) by simp
  have e1: "e \<le> e'" using res(3) by simp
  have e2: "- 1074 \<le> e'" unfolding res(3) k_def by linarith
  have "m < 2 ^ bitlen m" by (rule bitlen_bound)
  also have "bitlen m \<le> 53 + k" unfolding k_def by linarith
  then have "(2::nat) ^ bitlen m \<le> 2 ^ (53 + k)" by (rule power_increasing) simp
  finally have "m < 2 ^ 53 * 2 ^ k" by (simp add: power_add)
  then have q0: "q0 < 2 ^ 53" unfolding q0_def by (simp add: less_mult_imp_div_less)
  then have qb: "q \<le> 2 ^ 53" unfolding res(2) by simp
  have im: "int m = int q0 * 2 ^ k + int r" using m by (metis of_nat_add of_nat_mult of_nat_numeral of_nat_power)
  have ir: "int r < 2 ^ k" using rlt by (metis of_nat_less_iff of_nat_numeral of_nat_power)
  have upi: "up \<longleftrightarrow> (2::int) ^ k < 2 * int r \<or> (2 * int r = 2 ^ k \<and> odd q0)"
  proof -
    have a: "(2 ^ k < 2 * r) = ((2::int) ^ k < 2 * int r)"
      by (metis of_nat_less_iff of_nat_mult of_nat_numeral of_nat_power)
    have b: "(2 * r = 2 ^ k) = (2 * int r = (2::int) ^ k)"
      by (metis of_nat_eq_iff of_nat_mult of_nat_numeral of_nat_power)
    show ?thesis unfolding up_def a b ..
  qed
  have d: "int q * 2 ^ k - int m = (if up then 2 ^ k - int r else - int r)"
    unfolding res(2) im by (simp add: algebra_simps)
  have near: "2 * \<bar>int q * 2 ^ k - int m\<bar> \<le> 2 ^ k"
    unfolding d using ir upi by (auto simp: abs_if)
  have tie: "even q" if "2 * \<bar>int q * 2 ^ k - int m\<bar> = 2 ^ k" "e < e'"
  proof -
    from that(1) have "2 * int r = 2 ^ k"
      unfolding d using ir upi by (auto simp: abs_if split: if_splits)
    then show ?thesis unfolding res(2) using upi by auto
  qed
  show ?thesis
    unfolding ek using res(1) e1 e2 qb near tie by blast
qed

subsection \<open>The conversion of amps to milliamps\<close>

lemma milliamps_f6_3: "milliamps x f6_3 = 6300"
  by (simp add: milliamps_def f6_3_def f1e3_def round64_def bitlen.simps float64_to_int64_def
      Let_def)

lemma milliamps_f16: "milliamps x f16 = 16000"
  by (simp add: milliamps_def f16_def f1e3_def round64_def bitlen.simps float64_to_int64_def
      Let_def)

lemma milliamps_f0: "milliamps x f0 = 0"
  by (simp add: milliamps_def f0_def f1e3_def round64_def bitlen.simps float64_to_int64_def
      Let_def)

lemma floor_dyadic:
  "\<lfloor>real m * 2 powi e\<rfloor> = (if 0 \<le> e then int m * 2 ^ nat e else int m div 2 ^ nat (- e))"
proof (cases "0 \<le> e")
  case True
  then have "real m * 2 powi e = of_int (int m * 2 ^ nat e)"
    by (simp add: power_int_def)
  then show ?thesis using True by (simp only: floor_of_int if_True)
next
  case False
  then have "real m * 2 powi e = of_int (int m) / of_int (2 ^ nat (- e))"
    by (simp add: power_int_def field_simps)
  then show ?thesis using False by (simp only: floor_divide_of_int_eq if_False)
qed

lemma float64_trunc_real:
  assumes "float64_trunc f = Some v"
  shows "\<exists>r. float64_real f = Some r \<and> v = trunc0 r"
proof (cases f)
  case (Finite s m e)
  let ?x = "real m * 2 powi e"
  have x0: "0 \<le> ?x" by simp
  have v: "v = (if s then - \<lfloor>?x\<rfloor> else \<lfloor>?x\<rfloor>)"
    using assms Finite unfolding floor_dyadic by (simp add: Let_def)
  have "v = trunc0 ((if s then - 1 else 1) * real m * 2 powi e)"
  proof (cases s)
    case True
    have "trunc0 (- ?x) = - \<lfloor>?x\<rfloor>"
    proof (cases "?x = 0")
      case True
      then show ?thesis by (simp add: trunc0_def)
    next
      case False
      with x0 have "- ?x < 0" by simp
      then show ?thesis by (simp add: trunc0_def ceiling_def)
    qed
    with True v show ?thesis by (simp add: mult.assoc)
  next
    case False
    from x0 have "\<not> ?x < 0" by (simp add: not_less)
    with False v show ?thesis by (simp add: trunc0_def mult.assoc)
  qed
  with Finite show ?thesis by simp
qed (use assms in simp_all)

subsection \<open>Feature discovery\<close>

lemma hasFeature_cached:
  "features wb = Some xs \<Longrightarrow> hasFeature x r f t wb b = (f \<in> set xs, wb, b)"
  by (simp add: hasFeature_def slices_Contains_def)

lemma hasFeatures_cached:
  "features wb = Some xs \<Longrightarrow> hasFeatures x r t fs wb b = (map (\<lambda>f. f \<in> set xs) fs, wb, b)"
  by (induction fs) (simp_all add: hasFeature_cached)

lemma hasFeature_probe:
  assumes "features wb = None"
  shows "hasFeature x r f t wb b =
     (case probe x b (trace b) (r @ ''/info/features'') of
        (fs, err) \<Rightarrow>
          (err = None \<and> slices_Contains fs f, wb\<lparr>features := fs\<rparr>,
           if listen b (r @ ''/info/features'') = None
           then b\<lparr>trace := trace b @ [Read (r @ ''/info/features'')]\<rparr> else b))"
proof -
  have w: "wb\<lparr>features := None\<rparr> = wb" using assms by simp
  show ?thesis
    using assms w
    by (auto simp: hasFeature_def probe_def StringGetter_def NewMqtt_def bus_read_def Let_def
        split: option.splits sum.splits prod.splits)
qed

lemma probe_trace [simp]: "probe x (b\<lparr>trace := tr'\<rparr>) tr t = probe x b tr t"
  by (simp add: probe_def split: option.splits)

lemma hasFeature_probe_fails:
  assumes "features wb = None"
    and "probe x b (trace b) (r @ ''/info/features'') = (None, Some e)"
  shows "\<exists>tr. hasFeature x r f t wb b = (False, wb, b\<lparr>trace := tr\<rparr>)"
proof -
  have w: "wb\<lparr>features := None\<rparr> = wb" using assms(1) by simp
  have b: "b\<lparr>trace := trace b\<rparr> = b" by simp
  show ?thesis
  proof (cases "listen b (r @ ''/info/features'') = None")
    case True
    then have "hasFeature x r f t wb b =
        (False, wb, b\<lparr>trace := trace b @ [Read (r @ ''/info/features'')]\<rparr>)"
      by (simp add: hasFeature_probe [OF assms(1)] assms(2) w)
    then show ?thesis by blast
  next
    case False
    then have "hasFeature x r f t wb b = (False, wb, b\<lparr>trace := trace b\<rparr>)"
      by (simp add: hasFeature_probe [OF assms(1)] assms(2) w)
    then show ?thesis by blast
  qed
qed

section \<open>The claims\<close>

subsection \<open>Per-phase metering\<close>

text \<open>
  Claim C4. For every extended-metering payload that decodes to a sequence of at
  most 5 floats, both \<^verbatim>\<open>currents()\<close> and \<^verbatim>\<open>voltages()\<close> fail with the length error;
  for a sequence of exactly 6, \<^verbatim>\<open>voltages()\<close> returns the elements at positions
  0, 1, 2 in order and \<^verbatim>\<open>currents()\<close> the elements at positions 3, 4, 5 in order, with
  no error (and these six are the whole sequence).
\<close>

theorem meter_positions:
  assumes "meterDetailsG wb b = (Inr s, b')"
    and "Unmarshal_floats x s [] = (res, None)"
  shows "(length res \<le> 5 \<longrightarrow>
            currents x wb b = (Inl InvalidLength, b') \<and>
            voltages x wb b = (Inl InvalidLength, b')) \<and>
         (length res = 6 \<longrightarrow>
            voltages x wb b = (Inr (res ! 0, res ! 1, res ! 2), b') \<and>
            currents x wb b = (Inr (res ! 3, res ! 4, res ! 5), b') \<and>
            res = [res ! 0, res ! 1, res ! 2, res ! 3, res ! 4, res ! 5])"
proof (intro conjI impI)
  assume "length res = 6"
  then show "res = [res ! 0, res ! 1, res ! 2, res ! 3, res ! 4, res ! 5]"
    by (auto simp: list_eq_iff_nth_eq less_Suc_eq numeral_eq_Suc)
qed (use assms in \<open>simp_all add: currents_def voltages_def meterValues_def\<close>)

theorem meter_positions_witness:
  \<open>voltages sample_deps sample_wb sample_bus =
     (Inr (Finite False 230 0, Finite False 231 0, Finite False 232 0),
      sample_bus\<lparr>trace := [Read ''warp/meter/all_values'']\<rparr>) \<and>
   currents sample_deps sample_wb sample_bus =
     (Inr (Finite False 6 0, Finite False 7 0, Finite False 8 0),
      sample_bus\<lparr>trace := [Read ''warp/meter/all_values'']\<rparr>) \<and>
   currents sample_deps sample_wb (sample_bus\<lparr>reply := \<lambda>tr t. Inr ''[230,231,232,6,7]''\<rparr>) =
     (Inl InvalidLength,
      sample_bus\<lparr>reply := \<lambda>tr t. Inr ''[230,231,232,6,7]'',
                 trace := [Read ''warp/meter/all_values'']\<rparr>)\<close>
proof -
  have g: \<open>meterDetailsG sample_wb sample_bus =
      (Inr ''[230,231,232,6,7,8]'', sample_bus\<lparr>trace := [Read ''warp/meter/all_values'']\<rparr>)\<close>
    by (simp add: sample_wb_def sample_reply_def)
  have u: \<open>Unmarshal_floats sample_deps ''[230,231,232,6,7,8]'' [] =
      ([Finite False 230 0, Finite False 231 0, Finite False 232 0,
        Finite False 6 0, Finite False 7 0, Finite False 8 0], None)\<close>
    by (simp add: sample_deps_def sample_Unmarshal_floats_def)
  have g5: \<open>meterDetailsG sample_wb (sample_bus\<lparr>reply := \<lambda>tr t. Inr ''[230,231,232,6,7]''\<rparr>) =
      (Inr ''[230,231,232,6,7]'',
       sample_bus\<lparr>reply := \<lambda>tr t. Inr ''[230,231,232,6,7]'',
                  trace := [Read ''warp/meter/all_values'']\<rparr>)\<close>
    by (simp add: sample_wb_def bus_read_def sample_bus_def)
  have u5: \<open>Unmarshal_floats sample_deps ''[230,231,232,6,7]'' [] =
      ([Finite False 230 0, Finite False 231 0, Finite False 232 0,
        Finite False 6 0, Finite False 7 0], None)\<close>
    by (simp add: sample_deps_def sample_Unmarshal_floats_def)
  show ?thesis
    using meter_positions [OF g u] meter_positions [OF g5 u5] by simp
qed

text \<open>
  Claim C9 says that a sequence of six or fewer elements, length exactly 6
  included, is rejected. The code rejects a sequence of five or fewer elements
  (\<^verbatim>\<open>len(res) <= 5\<close>): the six-element payload of the sample device decodes and is
  read, by \<^verbatim>\<open>currents()\<close> and by \<^verbatim>\<open>voltages()\<close>.
\<close>

theorem six_elements_accepted_counterexample:
  \<open>length (fst (Unmarshal_floats sample_deps ''[230,231,232,6,7,8]'' [])) = 6 \<and>
   fst (meterDetailsG sample_wb sample_bus) = Inr ''[230,231,232,6,7,8]'' \<and>
   fst (currents sample_deps sample_wb sample_bus) =
     Inr (Finite False 6 0, Finite False 7 0, Finite False 8 0) \<and>
   fst (voltages sample_deps sample_wb sample_bus) =
     Inr (Finite False 230 0, Finite False 231 0, Finite False 232 0)\<close>
  by (simp add: currents_def voltages_def meterValues_def sample_wb_def sample_reply_def
      sample_deps_def sample_Unmarshal_floats_def)

text \<open>
  Claim C9, amended. For every extended-metering payload that decodes to a float
  sequence, the read is rejected as malformed if and only if the sequence has five
  or fewer elements: exactly then \<^verbatim>\<open>meterValues()\<close>, \<^verbatim>\<open>currents()\<close> and
  \<^verbatim>\<open>voltages()\<close> fail with the length error; a sequence of six or more elements
  is accepted, and on it \<^verbatim>\<open>voltages()\<close> returns the elements at positions 0, 1, 2
  and \<^verbatim>\<open>currents()\<close> the elements at positions 3, 4, 5, with no error.
\<close>

theorem meter_rejected_iff:
  assumes "meterDetailsG wb b = (Inr s, b')"
    and "Unmarshal_floats x s [] = (res, None)"
  shows "(fst (meterValues x wb b) = Inl InvalidLength \<longleftrightarrow> length res \<le> 5) \<and>
         (fst (currents x wb b) = Inl InvalidLength \<longleftrightarrow> length res \<le> 5) \<and>
         (fst (voltages x wb b) = Inl InvalidLength \<longleftrightarrow> length res \<le> 5) \<and>
         (5 < length res \<longleftrightarrow> fst (meterValues x wb b) = Inr res) \<and>
         (5 < length res \<longrightarrow>
            voltages x wb b = (Inr (res ! 0, res ! 1, res ! 2), b') \<and>
            currents x wb b = (Inr (res ! 3, res ! 4, res ! 5), b'))"
  using assms by (simp add: currents_def voltages_def meterValues_def)

theorem meter_rejected_iff_witness:
  \<open>fst (meterValues sample_deps sample_wb
          (sample_bus\<lparr>reply := \<lambda>tr t. Inr ''[230,231,232,6,7]''\<rparr>)) = Inl InvalidLength \<and>
   fst (meterValues sample_deps sample_wb sample_bus) \<noteq> Inl InvalidLength \<and>
   currents sample_deps sample_wb (sample_bus\<lparr>reply := \<lambda>tr t. Inr ''[230,231,232,6,7,8,50]''\<rparr>) =
     (Inr (Finite False 6 0, Finite False 7 0, Finite False 8 0),
      sample_bus\<lparr>reply := \<lambda>tr t. Inr ''[230,231,232,6,7,8,50]'',
                 trace := [Read ''warp/meter/all_values'']\<rparr>) \<and>
   voltages sample_deps sample_wb (sample_bus\<lparr>reply := \<lambda>tr t. Inr ''[230,231,232,6,7,8,50]''\<rparr>) =
     (Inr (Finite False 230 0, Finite False 231 0, Finite False 232 0),
      sample_bus\<lparr>reply := \<lambda>tr t. Inr ''[230,231,232,6,7,8,50]'',
                 trace := [Read ''warp/meter/all_values'']\<rparr>)\<close>
proof -
  have g: \<open>meterDetailsG sample_wb sample_bus =
      (Inr ''[230,231,232,6,7,8]'', sample_bus\<lparr>trace := [Read ''warp/meter/all_values'']\<rparr>)\<close>
    by (simp add: sample_wb_def sample_reply_def)
  have u: \<open>Unmarshal_floats sample_deps ''[230,231,232,6,7,8]'' [] =
      ([Finite False 230 0, Finite False 231 0, Finite False 232 0,
        Finite False 6 0, Finite False 7 0, Finite False 8 0], None)\<close>
    by (simp add: sample_deps_def sample_Unmarshal_floats_def)
  have g5: \<open>meterDetailsG sample_wb (sample_bus\<lparr>reply := \<lambda>tr t. Inr ''[230,231,232,6,7]''\<rparr>) =
      (Inr ''[230,231,232,6,7]'',
       sample_bus\<lparr>reply := \<lambda>tr t. Inr ''[230,231,232,6,7]'',
                  trace := [Read ''warp/meter/all_values'']\<rparr>)\<close>
    by (simp add: sample_wb_def bus_read_def sample_bus_def)
  have u5: \<open>Unmarshal_floats sample_deps ''[230,231,232,6,7]'' [] =
      ([Finite False 230 0, Finite False 231 0, Finite False 232 0,
        Finite False 6 0, Finite False 7 0], None)\<close>
    by (simp add: sample_deps_def sample_Unmarshal_floats_def)
  have g7: \<open>meterDetailsG sample_wb (sample_bus\<lparr>reply := \<lambda>tr t. Inr ''[230,231,232,6,7,8,50]''\<rparr>) =
      (Inr ''[230,231,232,6,7,8,50]'',
       sample_bus\<lparr>reply := \<lambda>tr t. Inr ''[230,231,232,6,7,8,50]'',
                  trace := [Read ''warp/meter/all_values'']\<rparr>)\<close>
    by (simp add: sample_wb_def bus_read_def sample_bus_def)
  have u7: \<open>Unmarshal_floats sample_deps ''[230,231,232,6,7,8,50]'' [] =
      ([Finite False 230 0, Finite False 231 0, Finite False 232 0,
        Finite False 6 0, Finite False 7 0, Finite False 8 0, Finite False 50 0], None)\<close>
    by (simp add: sample_deps_def sample_Unmarshal_floats_def)
  show ?thesis
    using meter_rejected_iff [OF g u] meter_rejected_iff [OF g5 u5]
      meter_rejected_iff [OF g7 u7]
    by simp
qed

subsection \<open>The base charger contract\<close>

text \<open>
  Claim C2. For every state-code payload, \<^verbatim>\<open>Status()\<close> maps code 0 to
  \<open>StatusA\<close> (not connected), 1 to \<open>StatusB\<close> (connected) and 2 to \<open>StatusC\<close>
  (charging) with no error; for any other code it returns the error that carries
  that code, with no status (\<open>StatusNone\<close>), never a defaulted one.
\<close>

theorem Status_codes:
  assumes "statusG wb b = (Inr s, b')"
    and "Unmarshal_EvseState x s \<lparr>Iec61851State = 0\<rparr> = (st, None)"
  shows "(Iec61851State st = 0 \<longrightarrow> Status x wb b = ((StatusA, None), b')) \<and>
         (Iec61851State st = 1 \<longrightarrow> Status x wb b = ((StatusB, None), b')) \<and>
         (Iec61851State st = 2 \<longrightarrow> Status x wb b = ((StatusC, None), b')) \<and>
         (Iec61851State st \<notin> {0, 1, 2} \<longrightarrow>
            Status x wb b = ((StatusNone, Some (InvalidStatus (Iec61851State st))), b'))"
proof -
  have S: "Status x wb b =
      (if Iec61851State st = 0 then ((StatusA, None), b')
       else if Iec61851State st = 1 then ((StatusB, None), b')
       else if Iec61851State st = 2 then ((StatusC, None), b')
       else ((StatusNone, Some (InvalidStatus (Iec61851State st))), b'))"
    unfolding Status_def Let_def assms(1) by (simp add: assms(2))
  show ?thesis
    by (intro conjI impI) (simp_all add: S split: if_splits)
qed

theorem Status_codes_witness:
  \<open>Status sample_deps sample_wb sample_bus =
     ((StatusC, None), sample_bus\<lparr>trace := [Read ''warp/evse/state'']\<rparr>) \<and>
   Status sample_deps sample_wb (sample_bus\<lparr>reply := \<lambda>tr t. Inr ''{"iec61851_state":4}''\<rparr>) =
     ((StatusNone, Some (InvalidStatus 4)),
      sample_bus\<lparr>reply := \<lambda>tr t. Inr ''{"iec61851_state":4}'', trace := [Read ''warp/evse/state'']\<rparr>)\<close>
proof -
  have g: \<open>statusG sample_wb sample_bus =
      (Inr ''{"iec61851_state":2}'', sample_bus\<lparr>trace := [Read ''warp/evse/state'']\<rparr>)\<close>
    by (simp add: sample_wb_def sample_reply_def)
  have u: \<open>Unmarshal_EvseState sample_deps ''{"iec61851_state":2}'' \<lparr>Iec61851State = 0\<rparr> =
      (\<lparr>Iec61851State = 2\<rparr>, None)\<close>
    by (simp add: sample_deps_def sample_Unmarshal_EvseState_def)
  have g4: \<open>statusG sample_wb (sample_bus\<lparr>reply := \<lambda>tr t. Inr ''{"iec61851_state":4}''\<rparr>) =
      (Inr ''{"iec61851_state":4}'',
       sample_bus\<lparr>reply := \<lambda>tr t. Inr ''{"iec61851_state":4}'', trace := [Read ''warp/evse/state'']\<rparr>)\<close>
    by (simp add: sample_wb_def bus_read_def sample_bus_def)
  have u4: \<open>Unmarshal_EvseState sample_deps ''{"iec61851_state":4}'' \<lparr>Iec61851State = 0\<rparr> =
      (\<lparr>Iec61851State = 4\<rparr>, None)\<close>
    by (simp add: sample_deps_def sample_Unmarshal_EvseState_def)
  have a: \<open>Status sample_deps sample_wb sample_bus =
     ((StatusC, None), sample_bus\<lparr>trace := [Read ''warp/evse/state'']\<rparr>)\<close>
    using Status_codes [OF g u] by simp
  have b: \<open>Status sample_deps sample_wb (sample_bus\<lparr>reply := \<lambda>tr t. Inr ''{"iec61851_state":4}''\<rparr>) =
     ((StatusNone, Some (InvalidStatus 4)),
      sample_bus\<lparr>reply := \<lambda>tr t. Inr ''{"iec61851_state":4}'', trace := [Read ''warp/evse/state'']\<rparr>)\<close>
    using Status_codes [OF g4 u4] by simp
  show ?thesis using a b by (rule conjI)
qed

text \<open>
  Claim C3. For every reported applied-current payload, and whatever the cached
  current and feature list of the adapter are (so after any earlier calls),
  \<^verbatim>\<open>Enabled()\<close> returns true if and only if the current that the hardware read reports
  is at least 6000 mA, and it returns the error of the read, or of the decoding, to
  the caller.
\<close>

theorem Enabled_threshold:
  assumes "maxcurrentG wb b = (r, b')"
  shows "(\<forall>s res err. r = Inr s \<longrightarrow>
            Unmarshal_EvseExternalCurrent x s \<lparr>Current = 0\<rparr> = (res, err) \<longrightarrow>
            Enabled x wb b = ((6000 \<le> Current res, err), b')) \<and>
         (\<forall>e. r = Inl e \<longrightarrow> Enabled x wb b = ((False, Some e), b')) \<and>
         Enabled x (wb\<lparr>current := c, features := fs\<rparr>) b = Enabled x wb b"
  using assms by (simp add: Enabled_def)

theorem Enabled_threshold_witness:
  \<open>Enabled sample_deps sample_wb sample_bus =
     ((True, None), sample_bus\<lparr>trace := [Read ''warp/evse/external_current'']\<rparr>) \<and>
   Enabled sample_deps sample_wb (sample_bus\<lparr>reply := \<lambda>tr t. Inl (External ''timeout'')\<rparr>) =
     ((False, Some (External ''timeout'')),
      sample_bus\<lparr>reply := \<lambda>tr t. Inl (External ''timeout''),
                 trace := [Read ''warp/evse/external_current'']\<rparr>)\<close>
proof -
  have g: \<open>maxcurrentG sample_wb sample_bus =
      (Inr ''{"current":16000}'', sample_bus\<lparr>trace := [Read ''warp/evse/external_current'']\<rparr>)\<close>
    by (simp add: sample_wb_def sample_reply_def)
  have u: \<open>Unmarshal_EvseExternalCurrent sample_deps ''{"current":16000}'' \<lparr>Current = 0\<rparr> =
      (\<lparr>Current = 16000\<rparr>, None)\<close>
    by (simp add: sample_deps_def sample_Unmarshal_EvseExternalCurrent_def)
  have g0: \<open>maxcurrentG sample_wb (sample_bus\<lparr>reply := \<lambda>tr t. Inl (External ''timeout'')\<rparr>) =
      (Inl (External ''timeout''),
       sample_bus\<lparr>reply := \<lambda>tr t. Inl (External ''timeout''),
                  trace := [Read ''warp/evse/external_current'']\<rparr>)\<close>
    by (simp add: sample_wb_def bus_read_def sample_bus_def)
  show ?thesis
    using Enabled_threshold [OF g, of sample_deps] Enabled_threshold [OF g0, of sample_deps] u
    by simp
qed

text \<open>
  Claim C10. At construction the cached last-applied current is 6000 mA, so a
  call of \<^verbatim>\<open>Enable(true)\<close> made before any successful \<^verbatim>\<open>MaxCurrent\<close> or
  \<^verbatim>\<open>MaxCurrentMillis\<close> call (after any calls of the base contract none of which
  applied a current) publishes 6000 on the current topic.
\<close>

theorem initial_current:
  assumes "NewWarp2 mqttconf topic emTopic timeout b0 = Inr wb0"
    and "run x cs (wb0\<lparr>features := fs\<rparr>) b1 = (h, wb, b)"
    and "\<forall>e \<in> set h. \<not> applied e"
  shows \<open>current wb0 = 6000 \<and>
     Enable True wb b =
       (ack b (trace b) (topic @ ''/evse/external_current_update'') 6000,
        b\<lparr>trace := trace b @
             [Publish (topic @ ''/evse/external_current_update'')
                ''{ "current": ${maxcurrent} }'' 6000]\<rparr>)\<close>
proof -
  note w0 = NewWarp2_Inr [OF assms(1)]
  have c0: "current wb0 = 6000" by (subst w0) simp
  have w: "wb = wb0\<lparr>features := fs, current := 6000\<rparr>"
    using run_adapter [OF assms(2)] last_applied_none [OF assms(3), of x "current wb0"] c0
    by simp
  have "Enable True wb b = maxcurrentS wb0 6000 b"
    by (simp add: Enable_def w)
  also have \<open>maxcurrentS wb0 =
      bus_publish (topic @ ''/evse/external_current_update'') ''{ "current": ${maxcurrent} }''\<close>
    by (subst w0) simp
  finally show ?thesis using c0 by (simp add: bus_publish_def)
qed

theorem initial_current_witness:
  \<open>Enable True sample_wb
     (refusing_bus\<lparr>trace :=
        [Publish ''warp/evse/external_current_update'' ''{ "current": ${maxcurrent} }'' 16000,
         Publish ''warp/evse/external_current_update'' ''{ "current": ${maxcurrent} }'' 0]\<rparr>) =
     (Some (External ''not connected''),
      refusing_bus\<lparr>trace :=
        [Publish ''warp/evse/external_current_update'' ''{ "current": ${maxcurrent} }'' 16000,
         Publish ''warp/evse/external_current_update'' ''{ "current": ${maxcurrent} }'' 0,
         Publish ''warp/evse/external_current_update'' ''{ "current": ${maxcurrent} }'' 6000]\<rparr>)\<close>
proof -
  have r: \<open>run sample_deps [CallMaxCurrentMillis f16, CallEnable False]
             (sample_wb\<lparr>features := None\<rparr>) refusing_bus =
           ([(CallMaxCurrentMillis f16, Some (External ''not connected'')),
             (CallEnable False, Some (External ''not connected''))],
            sample_wb,
            refusing_bus\<lparr>trace :=
              [Publish ''warp/evse/external_current_update'' ''{ "current": ${maxcurrent} }'' 16000,
               Publish ''warp/evse/external_current_update'' ''{ "current": ${maxcurrent} }'' 0]\<rparr>)\<close>
    by (simp add: MaxCurrentMillis_def Enable_def milliamps_f16 [unfolded milliamps_def]
        sample_wb_def bus_publish_def refusing_bus_def sample_bus_def)
  have n: \<open>\<forall>e \<in> set [(CallMaxCurrentMillis f16, Some (External ''not connected'')),
                       (CallEnable False, Some (External ''not connected''))]. \<not> applied e\<close>
    by simp
  show ?thesis
    using initial_current [OF NewWarp2_sample r n]
    by (simp add: refusing_bus_def sample_bus_def)
qed

text \<open>
  Claim C1 says that for every float amps value \<^verbatim>\<open>MaxCurrentMillis\<close> converts amps to
  milliamps by truncating the fractional milliamps. The code writes
  \<^verbatim>\<open>int64(a * 1e3)\<close> with no check of the range: for 9223372036854776 A the product is
  \<open>2\<^sup>6\<^sup>3\<close>, which has no fraction and which no \<^verbatim>\<open>int64\<close> holds, and for NaN the
  product has no value at all; in both cases the value written and cached is the
  platform's result of the conversion (here the smallest \<^verbatim>\<open>int64\<close>), not the
  truncated product.
\<close>

theorem MaxCurrentMillis_range_counterexample:
  \<open>float64_real (float64_mul f9e15 f1e3) = Some (2 ^ 63) \<and>
   trunc0 (2 ^ 63) = 2 ^ 63 \<and>
   MaxCurrentMillis sample_deps f9e15 sample_wb sample_bus =
     (None, sample_wb\<lparr>current := - (2 ^ 63)\<rparr>,
      sample_bus\<lparr>trace :=
        [Publish ''warp/evse/external_current_update'' ''{ "current": ${maxcurrent} }''
           (- (2 ^ 63))]\<rparr>) \<and>
   sint (- (2 ^ 63) :: int64) \<noteq> trunc0 (2 ^ 63) \<and>
   float64_real (float64_mul NaN f1e3) = None \<and>
   MaxCurrentMillis sample_deps NaN sample_wb sample_bus =
     (None, sample_wb\<lparr>current := - (2 ^ 63)\<rparr>,
      sample_bus\<lparr>trace :=
        [Publish ''warp/evse/external_current_update'' ''{ "current": ${maxcurrent} }''
           (- (2 ^ 63))]\<rparr>)\<close>
proof -
  have m: "float64_mul f9e15 f1e3 = Finite False 4503599627370496 11"
    by (simp add: f9e15_def f1e3_def round64_def bitlen.simps Let_def)
  have r: "float64_real (Finite False 4503599627370496 11) = Some (2 ^ 63)"
    by (simp add: power_int_def)
  have t: "trunc0 (2 ^ 63) = 2 ^ 63"
  proof -
    have "trunc0 (of_int (2 ^ 63)) = 2 ^ 63"
      unfolding trunc0_def by (simp only: floor_of_int ceiling_of_int if_cancel)
    then show ?thesis by simp
  qed
  have c: "float64_to_int64 (int64_oob sample_deps) (Finite False 4503599627370496 11) = - (2 ^ 63)"
    by (simp add: float64_to_int64_def sample_deps_def)
  have cn: "float64_to_int64 (int64_oob sample_deps) NaN = - (2 ^ 63)"
    by (simp add: float64_to_int64_def sample_deps_def)
  have s: "sint (- (2 ^ 63) :: int64) = - (2 ^ 63)" by simp
  have a: \<open>MaxCurrentMillis sample_deps f9e15 sample_wb sample_bus =
     (None, sample_wb\<lparr>current := - (2 ^ 63)\<rparr>,
      sample_bus\<lparr>trace :=
        [Publish ''warp/evse/external_current_update'' ''{ "current": ${maxcurrent} }''
           (- (2 ^ 63))]\<rparr>)\<close>
    unfolding MaxCurrentMillis_def m c Let_def
    by (simp add: sample_wb_def bus_publish_def sample_bus_def)
  have b: \<open>MaxCurrentMillis sample_deps NaN sample_wb sample_bus =
     (None, sample_wb\<lparr>current := - (2 ^ 63)\<rparr>,
      sample_bus\<lparr>trace :=
        [Publish ''warp/evse/external_current_update'' ''{ "current": ${maxcurrent} }''
           (- (2 ^ 63))]\<rparr>)\<close>
    unfolding MaxCurrentMillis_def float64_mul.simps cn Let_def
    by (simp add: sample_wb_def bus_publish_def sample_bus_def)
  have ne: "sint (- (2 ^ 63) :: int64) \<noteq> trunc0 (2 ^ 63)"
    unfolding s t by simp
  show ?thesis
    unfolding m using r t a b ne by simp
qed

text \<open>
  Claim C1, amended. For every \<^verbatim>\<open>float64\<close> \<open>a\<close> and every state of a constructed
  adapter, \<^verbatim>\<open>MaxCurrentMillis(a)\<close> publishes \<^verbatim>\<open>int64(a * 1e3)\<close> on the current topic,
  once, and returns the outcome of that publish; the cached current becomes that
  value if the publish succeeded and keeps its prior value if it failed, and a
  following \<^verbatim>\<open>Enable(true)\<close> publishes the cached current. For every \<open>a\<close> whose
  \<^verbatim>\<open>float64\<close> product with \<^verbatim>\<open>1e3\<close> is finite and has its integral part in the range of
  \<^verbatim>\<open>int64\<close>, the published value is that product with its fractional milliamps
  truncated. The instance is 6.3 A, which becomes 6300 mA, on a device that accepts
  the publish and on one that refuses it.
\<close>

theorem MaxCurrentMillis_cache:
  assumes "NewWarp2 mqttconf topic emTopic timeout b0 = Inr wb0"
  shows \<open>let wb = wb0\<lparr>features := fs, current := c\<rparr>;
            T = topic @ ''/evse/external_current_update'';
            P = ''{ "current": ${maxcurrent} }'';
            curr = float64_to_int64 (int64_oob x) (float64_mul a f1e3);
            err = ack b (trace b) T curr;
            b' = b\<lparr>trace := trace b @ [Publish T P curr]\<rparr>;
            c' = (if err = None then curr else c)
        in MaxCurrentMillis x a wb b = (err, wb\<lparr>current := c'\<rparr>, b') \<and>
           Enable True (wb\<lparr>current := c'\<rparr>) b' =
             (ack b' (trace b') T c', b'\<lparr>trace := trace b' @ [Publish T P c']\<rparr>) \<and>
           (\<forall>r. float64_real (float64_mul a f1e3) = Some r \<longrightarrow>
                - (2 ^ 63) \<le> trunc0 r \<longrightarrow> trunc0 r < 2 ^ 63 \<longrightarrow> sint curr = trunc0 r)\<close>
proof -
  note w0 = NewWarp2_Inr [OF assms]
  have S: \<open>maxcurrentS wb0 =
      bus_publish (topic @ ''/evse/external_current_update'') ''{ "current": ${maxcurrent} }''\<close>
    by (subst w0) simp
  have m: \<open>MaxCurrentMillis x a (wb0\<lparr>features := fs, current := c\<rparr>) b =
      (ack b (trace b) (topic @ ''/evse/external_current_update'')
         (float64_to_int64 (int64_oob x) (float64_mul a f1e3)),
       wb0\<lparr>features := fs, current := c\<rparr>
         \<lparr>current :=
            (if ack b (trace b) (topic @ ''/evse/external_current_update'')
                  (float64_to_int64 (int64_oob x) (float64_mul a f1e3)) = None
             then float64_to_int64 (int64_oob x) (float64_mul a f1e3) else c)\<rparr>,
       b\<lparr>trace := trace b @
            [Publish (topic @ ''/evse/external_current_update'') ''{ "current": ${maxcurrent} }''
               (float64_to_int64 (int64_oob x) (float64_mul a f1e3))]\<rparr>)\<close>
    by (simp add: MaxCurrentMillis_def Let_def S bus_publish_def)
  have e: \<open>Enable True (wb0\<lparr>features := fs, current := c\<rparr>\<lparr>current := c'\<rparr>) b' =
      (ack b' (trace b') (topic @ ''/evse/external_current_update'') c',
       b'\<lparr>trace := trace b' @
            [Publish (topic @ ''/evse/external_current_update'') ''{ "current": ${maxcurrent} }'' c']\<rparr>)\<close>
    for c' b'
    by (simp add: Enable_def S bus_publish_def)
  have t: "sint (float64_to_int64 (int64_oob x) (float64_mul a f1e3)) = trunc0 r"
    if r: "float64_real (float64_mul a f1e3) = Some r"
      and lo: "- (2 ^ 63) \<le> trunc0 r" and hi: "trunc0 r < 2 ^ 63" for r
  proof (cases "float64_trunc (float64_mul a f1e3)")
    case None
    with r show ?thesis by (cases "float64_mul a f1e3") simp_all
  next
    case (Some v)
    from float64_trunc_real [OF Some] r have v: "v = trunc0 r" by simp
    have "float64_to_int64 (int64_oob x) (float64_mul a f1e3) = word_of_int v"
      using Some lo hi v by (simp add: float64_to_int64_def)
    moreover have "sint (word_of_int v :: int64) = v"
      using lo hi v by (simp add: sint_sbintrunc' signed_take_bit_int_eq_self)
    ultimately show ?thesis using v by simp
  qed
  show ?thesis
    unfolding Let_def using m e t by blast
qed

theorem MaxCurrentMillis_cache_witness:
  \<open>MaxCurrentMillis sample_deps f6_3 sample_wb sample_bus =
     (None, sample_wb\<lparr>current := 6300\<rparr>,
      sample_bus\<lparr>trace :=
        [Publish ''warp/evse/external_current_update'' ''{ "current": ${maxcurrent} }'' 6300]\<rparr>) \<and>
   Enable True (sample_wb\<lparr>current := 6300\<rparr>)
     (sample_bus\<lparr>trace :=
        [Publish ''warp/evse/external_current_update'' ''{ "current": ${maxcurrent} }'' 6300]\<rparr>) =
     (None,
      sample_bus\<lparr>trace :=
        [Publish ''warp/evse/external_current_update'' ''{ "current": ${maxcurrent} }'' 6300,
         Publish ''warp/evse/external_current_update'' ''{ "current": ${maxcurrent} }'' 6300]\<rparr>) \<and>
   MaxCurrentMillis sample_deps f6_3 sample_wb refusing_bus =
     (Some (External ''not connected''), sample_wb,
      refusing_bus\<lparr>trace :=
        [Publish ''warp/evse/external_current_update'' ''{ "current": ${maxcurrent} }'' 6300]\<rparr>)\<close>
proof -
  have w: "sample_wb\<lparr>features := None, current := 6000\<rparr> = sample_wb"
    "sample_wb\<lparr>current := 6000\<rparr> = sample_wb"
    by (simp_all add: sample_wb_def)
  have a: \<open>MaxCurrentMillis sample_deps f6_3 sample_wb sample_bus =
     (None, sample_wb\<lparr>current := 6300\<rparr>,
      sample_bus\<lparr>trace :=
        [Publish ''warp/evse/external_current_update'' ''{ "current": ${maxcurrent} }'' 6300]\<rparr>)\<close>
    using MaxCurrentMillis_cache [OF NewWarp2_sample, where fs = None and c = 6000 and x = sample_deps and a = f6_3
        and b = sample_bus]
    by (simp add: Let_def w milliamps_f6_3 [unfolded milliamps_def] sample_bus_def)
  have b: \<open>Enable True (sample_wb\<lparr>current := 6300\<rparr>)
     (sample_bus\<lparr>trace :=
        [Publish ''warp/evse/external_current_update'' ''{ "current": ${maxcurrent} }'' 6300]\<rparr>) =
     (None,
      sample_bus\<lparr>trace :=
        [Publish ''warp/evse/external_current_update'' ''{ "current": ${maxcurrent} }'' 6300,
         Publish ''warp/evse/external_current_update'' ''{ "current": ${maxcurrent} }'' 6300]\<rparr>)\<close>
    using MaxCurrentMillis_cache [OF NewWarp2_sample, where fs = None and c = 6000 and x = sample_deps and a = f6_3
        and b = sample_bus]
    by (simp add: Let_def w milliamps_f6_3 [unfolded milliamps_def] sample_bus_def)
  have c: \<open>MaxCurrentMillis sample_deps f6_3 sample_wb refusing_bus =
     (Some (External ''not connected''), sample_wb,
      refusing_bus\<lparr>trace :=
        [Publish ''warp/evse/external_current_update'' ''{ "current": ${maxcurrent} }'' 6300]\<rparr>)\<close>
    using MaxCurrentMillis_cache [OF NewWarp2_sample, where fs = None and c = 6000 and x = sample_deps and a = f6_3
        and b = refusing_bus]
    by (simp add: Let_def w milliamps_f6_3 [unfolded milliamps_def] refusing_bus_def sample_bus_def)
  show ?thesis using a b c by simp
qed

text \<open>
  Claim C8 says that \<^verbatim>\<open>Enable(true)\<close> writes the last successfully-applied nonzero
  current. The code writes the cached current, and the cache takes every
  successfully applied value, zero included: after \<^verbatim>\<open>MaxCurrentMillis(16)\<close> and
  \<^verbatim>\<open>MaxCurrentMillis(0)\<close> have both succeeded, \<^verbatim>\<open>Enable(true)\<close> publishes 0, and the
  last successfully-applied nonzero current is 16000.
\<close>

theorem Enable_zero_after_zero_counterexample:
  \<open>run sample_deps [CallMaxCurrentMillis f16, CallMaxCurrentMillis f0] sample_wb sample_bus =
     ([(CallMaxCurrentMillis f16, None), (CallMaxCurrentMillis f0, None)],
      sample_wb\<lparr>current := 0\<rparr>,
      sample_bus\<lparr>trace :=
        [Publish ''warp/evse/external_current_update'' ''{ "current": ${maxcurrent} }'' 16000,
         Publish ''warp/evse/external_current_update'' ''{ "current": ${maxcurrent} }'' 0]\<rparr>) \<and>
   Enable True (sample_wb\<lparr>current := 0\<rparr>)
     (sample_bus\<lparr>trace :=
        [Publish ''warp/evse/external_current_update'' ''{ "current": ${maxcurrent} }'' 16000,
         Publish ''warp/evse/external_current_update'' ''{ "current": ${maxcurrent} }'' 0]\<rparr>) =
     (None,
      sample_bus\<lparr>trace :=
        [Publish ''warp/evse/external_current_update'' ''{ "current": ${maxcurrent} }'' 16000,
         Publish ''warp/evse/external_current_update'' ''{ "current": ${maxcurrent} }'' 0,
         Publish ''warp/evse/external_current_update'' ''{ "current": ${maxcurrent} }'' 0]\<rparr>) \<and>
   last_applied_nonzero sample_deps 6000
     [(CallMaxCurrentMillis f16, None), (CallMaxCurrentMillis f0, None)] = 16000 \<and>
   last_applied sample_deps 6000
     [(CallMaxCurrentMillis f16, None), (CallMaxCurrentMillis f0, None)] = 0\<close>
  by (simp add: MaxCurrentMillis_def Enable_def milliamps_f16 milliamps_f0
      milliamps_f16 [unfolded milliamps_def] milliamps_f0 [unfolded milliamps_def]
      sample_wb_def bus_publish_def sample_bus_def)

text \<open>
  Claim C8, amended. For every state that a constructed adapter reaches by calls
  of the base contract, \<^verbatim>\<open>Enable(on)\<close> publishes exactly once on the current topic:
  \<^verbatim>\<open>Enable(false)\<close> publishes zero, and \<^verbatim>\<open>Enable(true)\<close> publishes the cached current,
  which is the value of the last \<^verbatim>\<open>MaxCurrent\<close> or \<^verbatim>\<open>MaxCurrentMillis\<close> call that
  succeeded (zero if that call applied zero) and 6000 if none has succeeded.
\<close>

theorem Enable_writes_cached:
  assumes "NewWarp2 mqttconf topic emTopic timeout b0 = Inr wb0"
    and "run x cs (wb0\<lparr>features := fs\<rparr>) b1 = (h, wb, b)"
  shows \<open>let T = topic @ ''/evse/external_current_update'';
            P = ''{ "current": ${maxcurrent} }'';
            v = (if on then last_applied x 6000 h else 0)
        in current wb = last_applied x 6000 h \<and>
           Enable on wb b = (ack b (trace b) T v, b\<lparr>trace := trace b @ [Publish T P v]\<rparr>)\<close>
proof -
  note w0 = NewWarp2_Inr [OF assms(1)]
  have c0: "current wb0 = 6000" by (subst w0) simp
  have S: \<open>maxcurrentS wb0 =
      bus_publish (topic @ ''/evse/external_current_update'') ''{ "current": ${maxcurrent} }''\<close>
    by (subst w0) simp
  have w: "wb = wb0\<lparr>features := fs, current := last_applied x 6000 h\<rparr>"
    using run_adapter [OF assms(2)] c0 by simp
  show ?thesis
    by (simp add: Let_def Enable_def w S bus_publish_def)
qed

theorem Enable_writes_cached_witness:
  \<open>Enable True (sample_wb\<lparr>current := 16000\<rparr>)
     (sample_bus\<lparr>trace :=
        [Publish ''warp/evse/external_current_update'' ''{ "current": ${maxcurrent} }'' 16000,
         Publish ''warp/evse/external_current_update'' ''{ "current": ${maxcurrent} }'' 0]\<rparr>) =
     (None,
      sample_bus\<lparr>trace :=
        [Publish ''warp/evse/external_current_update'' ''{ "current": ${maxcurrent} }'' 16000,
         Publish ''warp/evse/external_current_update'' ''{ "current": ${maxcurrent} }'' 0,
         Publish ''warp/evse/external_current_update'' ''{ "current": ${maxcurrent} }'' 16000]\<rparr>) \<and>
   Enable False (sample_wb\<lparr>current := 16000\<rparr>)
     (sample_bus\<lparr>trace :=
        [Publish ''warp/evse/external_current_update'' ''{ "current": ${maxcurrent} }'' 16000,
         Publish ''warp/evse/external_current_update'' ''{ "current": ${maxcurrent} }'' 0]\<rparr>) =
     (None,
      sample_bus\<lparr>trace :=
        [Publish ''warp/evse/external_current_update'' ''{ "current": ${maxcurrent} }'' 16000,
         Publish ''warp/evse/external_current_update'' ''{ "current": ${maxcurrent} }'' 0,
         Publish ''warp/evse/external_current_update'' ''{ "current": ${maxcurrent} }'' 0]\<rparr>)\<close>
proof -
  have r: \<open>run sample_deps [CallMaxCurrentMillis f16, CallEnable False]
             (sample_wb\<lparr>features := None\<rparr>) sample_bus =
           ([(CallMaxCurrentMillis f16, None), (CallEnable False, None)],
            sample_wb\<lparr>current := 16000\<rparr>,
            sample_bus\<lparr>trace :=
              [Publish ''warp/evse/external_current_update'' ''{ "current": ${maxcurrent} }'' 16000,
               Publish ''warp/evse/external_current_update'' ''{ "current": ${maxcurrent} }'' 0]\<rparr>)\<close>
    by (simp add: MaxCurrentMillis_def Enable_def milliamps_f16 [unfolded milliamps_def]
        sample_wb_def bus_publish_def sample_bus_def)
  show ?thesis
    using Enable_writes_cached [OF NewWarp2_sample r, where on = True]
      Enable_writes_cached [OF NewWarp2_sample r, where on = False]
    by (simp add: Let_def milliamps_f16 sample_bus_def)
qed

subsection \<open>Phase switching\<close>

text \<open>
  Claim C5. For every call \<^verbatim>\<open>Phases(n)\<close> on a constructed adapter, in any state and
  for any \<open>n\<close>, the operation first reads the energy-manager state from the bus (one
  read per call, nothing cached). The control modes are the values of an
  enumeration, which are not negative. If the payload decodes to control mode 1
  (actively controlling) or to any other nonzero mode, the call fails with the error
  that names the mode and publishes nothing; if the mode is 0 (available), it
  publishes the phase count with the \<^verbatim>\<open>phases_wanted\<close> template and returns the outcome
  of that publish.
\<close>

theorem phases_guard:
  assumes "NewWarp2 mqttconf topic emTopic timeout b0 = Inr wb0"
    and \<open>reply b (trace b) (emTopic @ ''/energy_manager/state'') = Inr s\<close>
    and "Unmarshal_EmState x s \<lparr>ExternalControl = 0\<rparr> = (res, None)"
    and "0 \<le> ExternalControl res"
  shows \<open>let wb = wb0\<lparr>features := fs, current := c\<rparr>;
            G = emTopic @ ''/energy_manager/state'';
            T = emTopic @ ''/energy_manager/external_control_update'';
            P = ''{ "phases_wanted": ${phases} }'';
            b1 = b\<lparr>trace := trace b @ [Read G]\<rparr>
        in (ExternalControl res \<noteq> 0 \<longrightarrow>
              phases1p3p x n wb b =
                (Some (ExternalControlNotAvailable
                         (ExternalControl_String x (ExternalControl res))), b1)) \<and>
           (ExternalControl res = 0 \<longrightarrow>
              phases1p3p x n wb b =
                (ack b (trace b1) T (word_of_int n),
                 b\<lparr>trace := trace b @ [Read G, Publish T P (word_of_int n)]\<rparr>))\<close>
proof -
  note w0 = NewWarp2_Inr [OF assms(1)]
  have G: \<open>emStateG wb0 = bus_read (emTopic @ ''/energy_manager/state'')\<close>
    by (subst w0) simp
  have S: \<open>phasesS wb0 =
      bus_publish (emTopic @ ''/energy_manager/external_control_update'')
        ''{ "phases_wanted": ${phases} }''\<close>
    by (subst w0) simp
  have e: \<open>emState x (wb0\<lparr>features := fs, current := c\<rparr>) b =
      ((res, None), b\<lparr>trace := trace b @ [Read (emTopic @ ''/energy_manager/state'')]\<rparr>)\<close>
    by (simp add: emState_def G bus_read_def assms(2) assms(3))
  have pos: "ExternalControl res \<noteq> 0 \<longleftrightarrow> 0 < ExternalControl res"
    using assms(4) by linarith
  show ?thesis
    unfolding Let_def phases1p3p_def e pos
    by (simp add: S bus_publish_def)
qed

theorem phases_guard_witness:
  \<open>phases1p3p sample_deps 3 sample_wb sample_bus =
     (None,
      sample_bus\<lparr>trace :=
        [Read ''wem/energy_manager/state'',
         Publish ''wem/energy_manager/external_control_update''
           ''{ "phases_wanted": ${phases} }'' 3]\<rparr>) \<and>
   phases1p3p sample_deps 3 sample_wb
     (sample_bus\<lparr>reply := \<lambda>tr t. Inr ''{"external_control":1}''\<rparr>) =
     (Some (ExternalControlNotAvailable ''deactivated''),
      sample_bus\<lparr>reply := \<lambda>tr t. Inr ''{"external_control":1}'',
                 trace := [Read ''wem/energy_manager/state'']\<rparr>)\<close>
proof -
  have w: "sample_wb\<lparr>features := None, current := 6000\<rparr> = sample_wb"
    by (simp add: sample_wb_def)
  have r0: \<open>reply sample_bus (trace sample_bus) (''wem'' @ ''/energy_manager/state'') =
      Inr ''{"external_control":0}''\<close>
    by (simp add: sample_bus_def sample_reply_def)
  have u0: \<open>Unmarshal_EmState sample_deps ''{"external_control":0}'' \<lparr>ExternalControl = 0\<rparr> =
      (\<lparr>ExternalControl = 0\<rparr>, None)\<close>
    by (simp add: sample_deps_def sample_Unmarshal_EmState_def)
  have r1: \<open>reply (sample_bus\<lparr>reply := \<lambda>tr t. Inr ''{"external_control":1}''\<rparr>)
        (trace (sample_bus\<lparr>reply := \<lambda>tr t. Inr ''{"external_control":1}''\<rparr>))
        (''wem'' @ ''/energy_manager/state'') = Inr ''{"external_control":1}''\<close>
    by simp
  have u1: \<open>Unmarshal_EmState sample_deps ''{"external_control":1}'' \<lparr>ExternalControl = 0\<rparr> =
      (\<lparr>ExternalControl = 1\<rparr>, None)\<close>
    by (simp add: sample_deps_def sample_Unmarshal_EmState_def)
  have n0: "0 \<le> ExternalControl \<lparr>ExternalControl = 0\<rparr>" by simp
  have n1: "0 \<le> ExternalControl \<lparr>ExternalControl = 1\<rparr>" by simp
  have a: \<open>phases1p3p sample_deps 3 sample_wb sample_bus =
     (None,
      sample_bus\<lparr>trace :=
        [Read ''wem/energy_manager/state'',
         Publish ''wem/energy_manager/external_control_update''
           ''{ "phases_wanted": ${phases} }'' 3]\<rparr>)\<close>
    using phases_guard [OF NewWarp2_sample r0 u0 n0, where fs = None and c = 6000 and n = 3]
    by (simp add: Let_def w sample_bus_def)
  have b: \<open>phases1p3p sample_deps 3 sample_wb
     (sample_bus\<lparr>reply := \<lambda>tr t. Inr ''{"external_control":1}''\<rparr>) =
     (Some (ExternalControlNotAvailable ''deactivated''),
      sample_bus\<lparr>reply := \<lambda>tr t. Inr ''{"external_control":1}'',
                 trace := [Read ''wem/energy_manager/state'']\<rparr>)\<close>
    using phases_guard [OF NewWarp2_sample r1 u1 n1, where fs = None and c = 6000 and n = 3]
    by (simp add: Let_def w sample_bus_def sample_deps_def)
  show ?thesis using a b by (rule conjI)
qed

subsection \<open>Feature discovery\<close>

text \<open>
  Claim C6 says that the capability list is fetched at most once, also when the
  first probe failed. The code caches the list only when the probe leaves one
  (\<^verbatim>\<open>if wb.features != nil\<close>): after a failed probe the cache is still nil and the
  next call probes again. On a device that answers no read, the three feature
  queries of the composer read the capability-list topic three times.
\<close>

theorem hasFeature_refetch_counterexample:
  \<open>hasFeatures sample_deps ''warp'' 30000000000 [''meter'', ''meter_phases'', ''nfc'']
     sample_wb offline_bus =
     ([False, False, False], sample_wb,
      offline_bus\<lparr>trace :=
        [Read ''warp/info/features'', Read ''warp/info/features'',
         Read ''warp/info/features'']\<rparr>)\<close>
proof -
  have p: \<open>probe sample_deps offline_bus tr ''warp/info/features'' =
      (None, Some (External ''timeout''))\<close> for tr
    by (simp add: probe_def offline_bus_def sample_bus_def)
  have l: \<open>listen offline_bus ''warp/info/features'' = None\<close>
    by (simp add: offline_bus_def sample_bus_def)
  have w: "features sample_wb = None" "sample_wb\<lparr>features := None\<rparr> = sample_wb"
    by (simp_all add: sample_wb_def)
  have h: \<open>hasFeature sample_deps ''warp'' f 30000000000 sample_wb (offline_bus\<lparr>trace := tr\<rparr>) =
      (False, sample_wb, offline_bus\<lparr>trace := tr @ [Read ''warp/info/features'']\<rparr>)\<close> for f tr
    by (simp add: hasFeature_probe [OF w(1)] p l w(2))
  have t0: "offline_bus\<lparr>trace := []\<rparr> = offline_bus"
    by (simp add: offline_bus_def sample_bus_def)
  show ?thesis
    using h [of _ "[]"] by (simp add: h t0)
qed

text \<open>
  Claim C6, amended. Once the adapter has a feature list cached, every
  subsequent sequence of \<^verbatim>\<open>hasFeature\<close> calls consults only the cache: no call reads
  the bus or changes the adapter. A call made while no list is cached (the first
  one, and every one after a probe that failed and left none) reads the
  capability-list topic at most once and caches what its probe leaves.
\<close>

theorem hasFeature_cache:
  \<open>(features wb \<noteq> None \<longrightarrow>
      hasFeatures x r t fs wb b = (map (slices_Contains (features wb)) fs, wb, b)) \<and>
   (features wb = None \<longrightarrow>
      snd (snd (hasFeature x r f t wb b)) \<in>
        {b, b\<lparr>trace := trace b @ [Read (r @ ''/info/features'')]\<rparr>} \<and>
      features (fst (snd (hasFeature x r f t wb b))) =
        fst (probe x b (trace b) (r @ ''/info/features'')))\<close>
proof (intro conjI impI)
  assume "features wb \<noteq> None"
  then obtain xs where xs: "features wb = Some xs" by auto
  show "hasFeatures x r t fs wb b = (map (slices_Contains (features wb)) fs, wb, b)"
    by (simp add: hasFeatures_cached [OF xs] xs slices_Contains_def)
next
  assume n: "features wb = None"
  show \<open>snd (snd (hasFeature x r f t wb b)) \<in>
        {b, b\<lparr>trace := trace b @ [Read (r @ ''/info/features'')]\<rparr>}\<close>
    by (simp add: hasFeature_probe [OF n] split: prod.splits)
next
  assume n: "features wb = None"
  show \<open>features (fst (snd (hasFeature x r f t wb b))) =
        fst (probe x b (trace b) (r @ ''/info/features''))\<close>
    by (simp add: hasFeature_probe [OF n] split: prod.splits)
qed

theorem hasFeature_cache_witness:
  \<open>hasFeatures sample_deps ''warp'' 30000000000 [''meter'', ''meter_phases'', ''rfid'']
     sample_wb sample_bus =
     ([True, True, False],
      sample_wb\<lparr>features := Some [''meter'', ''meter_phases'', ''nfc'']\<rparr>,
      sample_bus\<lparr>trace := [Read ''warp/info/features'']\<rparr>)\<close>
proof -
  have p: \<open>probe sample_deps sample_bus [] ''warp/info/features'' =
      (Some [''meter'', ''meter_phases'', ''nfc''], None)\<close>
    by (simp add: probe_def sample_bus_def sample_reply_def sample_deps_def
        sample_Unmarshal_strings_def)
  have w: "features sample_wb = None" by (simp add: sample_wb_def)
  have h: \<open>hasFeature sample_deps ''warp'' ''meter'' 30000000000 sample_wb sample_bus =
      (True, sample_wb\<lparr>features := Some [''meter'', ''meter_phases'', ''nfc'']\<rparr>,
       sample_bus\<lparr>trace := [Read ''warp/info/features'']\<rparr>)\<close>
  proof -
    have l: "listen sample_bus t = None" "trace sample_bus = []" for t
      by (simp_all add: sample_bus_def)
    show ?thesis
      by (simp add: hasFeature_probe [OF w] l p slices_Contains_def)
  qed
  have c: \<open>hasFeatures sample_deps ''warp'' 30000000000 [''meter_phases'', ''rfid'']
      (sample_wb\<lparr>features := Some [''meter'', ''meter_phases'', ''nfc'']\<rparr>)
      (sample_bus\<lparr>trace := [Read ''warp/info/features'']\<rparr>) =
      ([True, False], sample_wb\<lparr>features := Some [''meter'', ''meter_phases'', ''nfc'']\<rparr>,
       sample_bus\<lparr>trace := [Read ''warp/info/features'']\<rparr>)\<close>
    using hasFeature_cache
      [where wb = \<open>sample_wb\<lparr>features := Some [''meter'', ''meter_phases'', ''nfc'']\<rparr>\<close>
         and x = sample_deps and r = \<open>''warp''\<close> and t = 30000000000
         and fs = \<open>[''meter_phases'', ''rfid'']\<close>
         and b = \<open>sample_bus\<lparr>trace := [Read ''warp/info/features'']\<rparr>\<close>]
    by (simp add: slices_Contains_def)
  show ?thesis
    by (subst hasFeatures.simps(2)) (simp only: h c prod.case)
qed

text \<open>
  Claim C7 says that when the feature-discovery probe fails, \<^verbatim>\<open>hasFeature\<close> returns
  false for every capability and the charger exposes none of the feature-gated
  capabilities. The call whose probe fails does return false, but the composer asks
  three times and a failed probe is repeated: on a device whose first answer on the
  capability-list topic is a timeout, the first query is false and the second
  probes again, so the charger has the per-phase metering and the identification
  (and not the metering, which the device also advertises).
\<close>

theorem discovery_retry_counterexample:
  \<open>probe sample_deps flaky_bus [] ''warp/info/features'' = (None, Some (External ''timeout'')) \<and>
   hasFeature sample_deps ''warp'' ''meter'' 30000000000 default_wb flaky_bus =
     (False, default_wb, flaky_bus\<lparr>trace := [Read ''warp/info/features'']\<rparr>) \<and>
   NewWarp2FromConfig sample_deps [] flaky_bus =
     (Inr \<lparr>base = default_wb\<lparr>features := Some [''meter'', ''meter_phases'', ''nfc'']\<rparr>,
           ch_currentPower = None, ch_totalEnergy = None,
           ch_currents = Some (currents sample_deps),
           ch_voltages = Some (voltages sample_deps),
           ch_identity = Some (identify sample_deps),
           ch_phases = None\<rparr>,
      flaky_bus\<lparr>trace := [Read ''warp/info/features'', Read ''warp/info/features'']\<rparr>)\<close>
proof -
  let ?C = "\<lparr>cc_Config = \<lparr>broker = [], user = [], password = []\<rparr>,
             cc_Topic = ''warp'', cc_EnergyManager = [], cc_Timeout = 30000000000\<rparr>"
  have d: "DecodeOther sample_deps []
             \<lparr>cc_Config = \<lparr>broker = [], user = [], password = []\<rparr>,
              cc_Topic = warp_RootTopic sample_deps, cc_EnergyManager = [],
              cc_Timeout = warp_Timeout sample_deps\<rparr> = (?C, None)"
    by (simp add: sample_deps_def sample_DecodeOther_def)
  have n: "NewWarp2 (cc_Config ?C) (cc_Topic ?C) (cc_EnergyManager ?C) (cc_Timeout ?C)
             flaky_bus = Inr default_wb"
    by (simp add: NewWarp2_def bindE_def RegisteredClientOrDefault_def StringGetter_def
        to_StringGetter_def IntSetter_def NewMqtt_def WithPayload_def Let_def
        flaky_bus_def sample_bus_def default_wb_def default_conf_def)
  have c: "cc_Topic ?C = ''warp''" "cc_Timeout ?C = 30000000000" "cc_EnergyManager ?C = []"
    by simp_all
  have k: "warp_FeatureMeter sample_deps = ''meter''"
    "warp_FeatureMeterPhases sample_deps = ''meter_phases''"
    "warp_FeatureNfc sample_deps = ''nfc''"
    by (simp_all add: sample_deps_def)
  have l: "listen flaky_bus t = None" "trace flaky_bus = []" for t
    by (simp_all add: flaky_bus_def sample_bus_def)
  have w: "features default_wb = None" "default_wb\<lparr>features := None\<rparr> = default_wb"
    by (simp_all add: default_wb_def)
  have p1: \<open>probe sample_deps flaky_bus [] ''warp/info/features'' =
      (None, Some (External ''timeout''))\<close>
    by (simp add: probe_def flaky_bus_def sample_bus_def flaky_reply_def)
  have p2: \<open>probe sample_deps flaky_bus [Read ''warp/info/features''] ''warp/info/features'' =
      (Some [''meter'', ''meter_phases'', ''nfc''], None)\<close>
    by (simp add: probe_def flaky_bus_def sample_bus_def flaky_reply_def sample_reply_def
        sample_deps_def sample_Unmarshal_strings_def)
  have h1: \<open>hasFeature sample_deps ''warp'' ''meter'' 30000000000 default_wb flaky_bus =
      (False, default_wb, flaky_bus\<lparr>trace := [Read ''warp/info/features'']\<rparr>)\<close>
    by (simp add: hasFeature_probe [OF w(1)] l p1 w(2))
  have h2: \<open>hasFeature sample_deps ''warp'' ''meter_phases'' 30000000000 default_wb
        (flaky_bus\<lparr>trace := [Read ''warp/info/features'']\<rparr>) =
      (True, default_wb\<lparr>features := Some [''meter'', ''meter_phases'', ''nfc'']\<rparr>,
       flaky_bus\<lparr>trace := [Read ''warp/info/features'', Read ''warp/info/features'']\<rparr>)\<close>
    by (simp add: hasFeature_probe [OF w(1)] l p2 slices_Contains_def)
  have h3: \<open>hasFeature sample_deps ''warp'' ''nfc'' 30000000000
        (default_wb\<lparr>features := Some [''meter'', ''meter_phases'', ''nfc'']\<rparr>)
        (flaky_bus\<lparr>trace := [Read ''warp/info/features'', Read ''warp/info/features'']\<rparr>) =
      (True, default_wb\<lparr>features := Some [''meter'', ''meter_phases'', ''nfc'']\<rparr>,
       flaky_bus\<lparr>trace := [Read ''warp/info/features'', Read ''warp/info/features'']\<rparr>)\<close>
    by (simp add: hasFeature_cached)
  have f: \<open>NewWarp2FromConfig sample_deps [] flaky_bus =
     (Inr \<lparr>base = default_wb\<lparr>features := Some [''meter'', ''meter_phases'', ''nfc'']\<rparr>,
           ch_currentPower = None, ch_totalEnergy = None,
           ch_currents = Some (currents sample_deps),
           ch_voltages = Some (voltages sample_deps),
           ch_identity = Some (identify sample_deps),
           ch_phases = None\<rparr>,
      flaky_bus\<lparr>trace := [Read ''warp/info/features'', Read ''warp/info/features'']\<rparr>)\<close>
  proof -
    have n': "NewWarp2 \<lparr>broker = [], user = [], password = []\<rparr> ''warp'' [] 30000000000
        flaky_bus = Inr default_wb"
      using n by simp
    show ?thesis
      by (simp add: NewWarp2FromConfig_def d n' k h1 h2 h3 decorateWarp2_def)
  qed
  show ?thesis using p1 h1 f by simp
qed

text \<open>
  Claim C7, amended. A \<^verbatim>\<open>hasFeature\<close> call whose own probe fails, with a transport
  or a parse error, returns false and raises nothing. When the configuration
  decodes, \<open>NewWarp2\<close> returns an adapter and each probe of the capability list made
  during the construction fails and leaves no list cached, the construction
  succeeds and the charger exposes none of the feature-gated capabilities
  (metering, per-phase metering, identification). The probes of the construction
  are the three of the composer's feature queries: at the trace of the bus at the
  start, and after one and after two reads of the capability-list topic. What the
  device answers later does not matter.
\<close>

theorem discovery_failure:
  assumes "DecodeOther x other
             \<lparr>cc_Config = \<lparr>broker = [], user = [], password = []\<rparr>,
              cc_Topic = warp_RootTopic x, cc_EnergyManager = [],
              cc_Timeout = warp_Timeout x\<rparr> = (c, None)"
    and "NewWarp2 (cc_Config c) (cc_Topic c) (cc_EnergyManager c) (cc_Timeout c) b = Inr wb"
    and "\<exists>e. probe x b (trace b) (cc_Topic c @ ''/info/features'') = (None, Some e)"
    and "\<exists>e. probe x b (trace b @ [Read (cc_Topic c @ ''/info/features'')])
               (cc_Topic c @ ''/info/features'') = (None, Some e)"
    and "\<exists>e. probe x b (trace b @ [Read (cc_Topic c @ ''/info/features''),
                                     Read (cc_Topic c @ ''/info/features'')])
               (cc_Topic c @ ''/info/features'') = (None, Some e)"
  shows "(\<forall>f t wb' b'. features wb' = None \<longrightarrow>
            snd (probe x b' (trace b') (r @ ''/info/features'')) \<noteq> None \<longrightarrow>
            fst (hasFeature x r f t wb' b') = False) \<and>
         (\<exists>ch b'. NewWarp2FromConfig x other b = (Inr ch, b') \<and>
            features (base ch) = None \<and>
            ch_currentPower ch = None \<and> ch_totalEnergy ch = None \<and>
            ch_currents ch = None \<and> ch_voltages ch = None \<and> ch_identity ch = None)"
proof
  show "\<forall>f t wb' b'. features wb' = None \<longrightarrow>
            snd (probe x b' (trace b') (r @ ''/info/features'')) \<noteq> None \<longrightarrow>
            fst (hasFeature x r f t wb' b') = False"
    by (auto simp: hasFeature_probe split: prod.splits)
next
  let ?F = "cc_Topic c @ ''/info/features''"
  have n: "features wb = None"
    by (subst NewWarp2_Inr [OF assms(2)]) simp
  have w: "wb\<lparr>features := None\<rparr> = wb" using n by simp
  from assms(3) obtain e1 where e1: "probe x b (trace b) ?F = (None, Some e1)" ..
  from assms(4) obtain e2 where e2: "probe x b (trace b @ [Read ?F]) ?F = (None, Some e2)" ..
  from assms(5) obtain e3 where
    e3: "probe x b (trace b @ [Read ?F, Read ?F]) ?F = (None, Some e3)" ..
  have "\<exists>b3. hasFeature x (cc_Topic c) (warp_FeatureMeter x) (cc_Timeout c) wb b =
            (False, wb, b\<lparr>trace := trace b @ [Read ?F]\<rparr>) \<and>
          hasFeature x (cc_Topic c) (warp_FeatureMeterPhases x) (cc_Timeout c) wb
            (b\<lparr>trace := trace b @ [Read ?F]\<rparr>) =
            (False, wb, b\<lparr>trace := trace b @ [Read ?F, Read ?F]\<rparr>) \<and>
          hasFeature x (cc_Topic c) (warp_FeatureNfc x) (cc_Timeout c) wb
            (b\<lparr>trace := trace b @ [Read ?F, Read ?F]\<rparr>) = (False, wb, b3) \<or>
          (\<forall>f. hasFeature x (cc_Topic c) f (cc_Timeout c) wb b = (False, wb, b))"
  proof (cases "listen b ?F = None")
    case True
    have h1: "hasFeature x (cc_Topic c) (warp_FeatureMeter x) (cc_Timeout c) wb b =
        (False, wb, b\<lparr>trace := trace b @ [Read ?F]\<rparr>)"
      by (simp add: hasFeature_probe [OF n] e1 True w)
    have h2: "hasFeature x (cc_Topic c) (warp_FeatureMeterPhases x) (cc_Timeout c) wb
        (b\<lparr>trace := trace b @ [Read ?F]\<rparr>) =
        (False, wb, b\<lparr>trace := trace b @ [Read ?F, Read ?F]\<rparr>)"
      by (simp add: hasFeature_probe [OF n] e2 True w)
    have h3: "hasFeature x (cc_Topic c) (warp_FeatureNfc x) (cc_Timeout c) wb
        (b\<lparr>trace := trace b @ [Read ?F, Read ?F]\<rparr>) =
        (False, wb, b\<lparr>trace := trace b @ [Read ?F, Read ?F, Read ?F]\<rparr>)"
      by (simp add: hasFeature_probe [OF n] e3 True w)
    from h1 h2 h3 show ?thesis by blast
  next
    case False
    have "hasFeature x (cc_Topic c) f (cc_Timeout c) wb b = (False, wb, b)" for f
      by (simp add: hasFeature_probe [OF n] e1 False w)
    then show ?thesis by blast
  qed
  then show "\<exists>ch b'. NewWarp2FromConfig x other b = (Inr ch, b') \<and>
            features (base ch) = None \<and>
            ch_currentPower ch = None \<and> ch_totalEnergy ch = None \<and>
            ch_currents ch = None \<and> ch_voltages ch = None \<and> ch_identity ch = None"
  proof (elim disjE exE conjE)
    fix b3
    assume h: "hasFeature x (cc_Topic c) (warp_FeatureMeter x) (cc_Timeout c) wb b =
            (False, wb, b\<lparr>trace := trace b @ [Read ?F]\<rparr>)"
      "hasFeature x (cc_Topic c) (warp_FeatureMeterPhases x) (cc_Timeout c) wb
            (b\<lparr>trace := trace b @ [Read ?F]\<rparr>) =
            (False, wb, b\<lparr>trace := trace b @ [Read ?F, Read ?F]\<rparr>)"
      "hasFeature x (cc_Topic c) (warp_FeatureNfc x) (cc_Timeout c) wb
            (b\<lparr>trace := trace b @ [Read ?F, Read ?F]\<rparr>) = (False, wb, b3)"
    show ?thesis
      unfolding NewWarp2FromConfig_def Let_def assms(1) prod.case option.case assms(2) sum.case h
      by (simp add: decorateWarp2_def n split: prod.splits)
  next
    assume h: "\<forall>f. hasFeature x (cc_Topic c) f (cc_Timeout c) wb b = (False, wb, b)"
    show ?thesis
      unfolding NewWarp2FromConfig_def Let_def assms(1) prod.case option.case assms(2) sum.case
      by (simp add: h decorateWarp2_def n split: prod.splits)
  qed
qed

theorem discovery_failure_witness:
  \<open>\<exists>ch b'. NewWarp2FromConfig sample_deps [] late_bus = (Inr ch, b') \<and>
      features (base ch) = None \<and>
      ch_currentPower ch = None \<and> ch_totalEnergy ch = None \<and>
      ch_currents ch = None \<and> ch_voltages ch = None \<and> ch_identity ch = None\<close>
proof -
  let ?C = "\<lparr>cc_Config = \<lparr>broker = [], user = [], password = []\<rparr>,
             cc_Topic = ''warp'', cc_EnergyManager = [], cc_Timeout = 30000000000\<rparr>"
  have d: "DecodeOther sample_deps []
             \<lparr>cc_Config = \<lparr>broker = [], user = [], password = []\<rparr>,
              cc_Topic = warp_RootTopic sample_deps, cc_EnergyManager = [],
              cc_Timeout = warp_Timeout sample_deps\<rparr> = (?C, None)"
    by (simp add: sample_deps_def sample_DecodeOther_def)
  have n: "NewWarp2 (cc_Config ?C) (cc_Topic ?C) (cc_EnergyManager ?C) (cc_Timeout ?C)
             late_bus = Inr default_wb"
    by (simp add: NewWarp2_def bindE_def RegisteredClientOrDefault_def StringGetter_def
        to_StringGetter_def IntSetter_def NewMqtt_def WithPayload_def Let_def
        late_bus_def sample_bus_def default_wb_def default_conf_def)
  have p0: "\<exists>e. probe sample_deps late_bus (trace late_bus) (cc_Topic ?C @ ''/info/features'') =
             (None, Some e)"
    by (simp add: probe_def late_bus_def sample_bus_def late_reply_def)
  have p1: "\<exists>e. probe sample_deps late_bus
                 (trace late_bus @ [Read (cc_Topic ?C @ ''/info/features'')])
                 (cc_Topic ?C @ ''/info/features'') = (None, Some e)"
    by (simp add: probe_def late_bus_def sample_bus_def late_reply_def)
  have p2: "\<exists>e. probe sample_deps late_bus
                 (trace late_bus @ [Read (cc_Topic ?C @ ''/info/features''),
                                    Read (cc_Topic ?C @ ''/info/features'')])
                 (cc_Topic ?C @ ''/info/features'') = (None, Some e)"
    by (simp add: probe_def late_bus_def sample_bus_def late_reply_def)
  show ?thesis
    by (rule discovery_failure [OF d n p0 p1 p2, THEN conjunct2])
qed

text \<open>
  Why the amended statement asks that a failed probe leaves no list cached: a
  probe that fails with a parse error can leave one. On the device whose capability
  list has a number among its strings, the first query fails and returns false, the
  partly decoded list is cached, and the later queries are answered from it: the
  charger has the per-phase metering after a single, failed probe.
\<close>

lemma discovery_partial_decode:
  \<open>probe sample_deps mistyped_bus [] ''warp/info/features'' =
     (Some [''meter_phases'', []],
      Some (External ''json: cannot unmarshal number into Go value of type string'')) \<and>
   hasFeature sample_deps ''warp'' ''meter_phases'' 30000000000 default_wb mistyped_bus =
     (False, default_wb\<lparr>features := Some [''meter_phases'', []]\<rparr>,
      mistyped_bus\<lparr>trace := [Read ''warp/info/features'']\<rparr>) \<and>
   NewWarp2FromConfig sample_deps [] mistyped_bus =
     (Inr \<lparr>base = default_wb\<lparr>features := Some [''meter_phases'', []]\<rparr>,
           ch_currentPower = None, ch_totalEnergy = None,
           ch_currents = Some (currents sample_deps),
           ch_voltages = Some (voltages sample_deps),
           ch_identity = None, ch_phases = None\<rparr>,
      mistyped_bus\<lparr>trace := [Read ''warp/info/features'']\<rparr>)\<close>
proof -
  have n: "NewWarp2 \<lparr>broker = [], user = [], password = []\<rparr> ''warp'' [] 30000000000
      mistyped_bus = Inr default_wb"
    by (simp add: NewWarp2_def bindE_def RegisteredClientOrDefault_def StringGetter_def
        to_StringGetter_def IntSetter_def NewMqtt_def WithPayload_def Let_def
        mistyped_bus_def sample_bus_def default_wb_def default_conf_def)
  have d: "DecodeOther sample_deps []
             \<lparr>cc_Config = \<lparr>broker = [], user = [], password = []\<rparr>,
              cc_Topic = warp_RootTopic sample_deps, cc_EnergyManager = [],
              cc_Timeout = warp_Timeout sample_deps\<rparr> =
           (\<lparr>cc_Config = \<lparr>broker = [], user = [], password = []\<rparr>,
             cc_Topic = ''warp'', cc_EnergyManager = [], cc_Timeout = 30000000000\<rparr>, None)"
    by (simp add: sample_deps_def sample_DecodeOther_def)
  have k: "warp_FeatureMeter sample_deps = ''meter''"
    "warp_FeatureMeterPhases sample_deps = ''meter_phases''"
    "warp_FeatureNfc sample_deps = ''nfc''"
    by (simp_all add: sample_deps_def)
  have l: "listen mistyped_bus t = None" "trace mistyped_bus = []" for t
    by (simp_all add: mistyped_bus_def sample_bus_def)
  have w: "features default_wb = None" by (simp add: default_wb_def)
  have p: \<open>probe sample_deps mistyped_bus [] ''warp/info/features'' =
     (Some [''meter_phases'', []],
      Some (External ''json: cannot unmarshal number into Go value of type string''))\<close>
    by (simp add: probe_def mistyped_bus_def sample_bus_def sample_deps_def
        sample_Unmarshal_strings_def)
  have h: \<open>hasFeature sample_deps ''warp'' f 30000000000 default_wb mistyped_bus =
     (False, default_wb\<lparr>features := Some [''meter_phases'', []]\<rparr>,
      mistyped_bus\<lparr>trace := [Read ''warp/info/features'']\<rparr>)\<close> for f
    by (simp add: hasFeature_probe [OF w] l p)
  have f: \<open>NewWarp2FromConfig sample_deps [] mistyped_bus =
     (Inr \<lparr>base = default_wb\<lparr>features := Some [''meter_phases'', []]\<rparr>,
           ch_currentPower = None, ch_totalEnergy = None,
           ch_currents = Some (currents sample_deps),
           ch_voltages = Some (voltages sample_deps),
           ch_identity = None, ch_phases = None\<rparr>,
      mistyped_bus\<lparr>trace := [Read ''warp/info/features'']\<rparr>)\<close>
    by (simp add: NewWarp2FromConfig_def d n k h hasFeature_cached decorateWarp2_def)
  show ?thesis using p h f by simp
qed

end
